theory Spec2Isabelle
  imports Main "HOL-Library.Word" "HOL-Library.Signed_Division"
begin

unbundle bit_operations_syntax

section \<open>Data model of dlls/ntdll/unix/fsync.c\<close>

text \<open>
  The embedding fixes the LP64 Linux ABI the file is built for: \<open>int\<close> and
  \<open>unsigned int\<close> have 32 bits, \<open>long\<close>, \<open>UINT_PTR\<close>, \<open>HANDLE\<close> and
  \<open>void *\<close> have 64 bits, and \<open>struct fsync\<close> (a 4-byte enum, 4 bytes of padding, an
  8-byte pointer) has 16 bytes.

  Everything the file takes from outside (the C library, the kernel, the wineserver) is
  an explicit argument of the function that consumes it; everything it does beyond
  returning a value (writing its file-scope variables, mapping and unmapping pages,
  printing diagnostics, sending a request) is written into the state.
\<close>

type_synonym handle = "64 word"
type_synonym pointer = "64 word"
type_synonym ntstatus = "32 word"

definition STATUS_OBJECT_NAME_EXISTS :: ntstatus where
  "STATUS_OBJECT_NAME_EXISTS = 0x40000000"

definition STATUS_NOT_IMPLEMENTED :: ntstatus where
  "STATUS_NOT_IMPLEMENTED = 0xC0000002"

definition ENOSYS :: int where
  "ENOSYS = 38"

definition ENOENT :: int where
  "ENOENT = 2"

text \<open>\<open>MAP_FAILED\<close> is \<open>(void *)-1\<close>.\<close>

definition MAP_FAILED :: pointer where
  "MAP_FAILED = - 1"

text \<open>
  \<open>enum fsync_type\<close> is stored in an \<open>int\<close>-sized field that \<open>add_to_list\<close>
  compare-and-swaps through an \<open>int *\<close>; \<open>fsync_init\<close> passes the value 0, which is no
  member of the enum, so the field is modelled as the 32-bit integer it is.
\<close>

definition FSYNC_SEMAPHORE :: "32 word" where
  "FSYNC_SEMAPHORE = 1"

record fsync =
  type :: "32 word"
  shm :: pointer

text \<open>The shared state of a semaphore; \<open>C_ASSERT(sizeof(struct semaphore) == 8)\<close>.\<close>

record semaphore =
  count :: "32 word"
  max_count :: "32 word"

definition sizeof_semaphore :: nat where
  "sizeof_semaphore = 8"

definition sizeof_fsync :: nat where
  "sizeof_fsync = 16"

definition FSYNC_LIST_BLOCK_SIZE :: nat where
  "FSYNC_LIST_BLOCK_SIZE = 65536 div sizeof_fsync"

definition FSYNC_LIST_ENTRIES :: nat where
  "FSYNC_LIST_ENTRIES = 256"

text \<open>The diagnostics of the \<open>ERR\<close> and \<open>FIXME\<close> channels (\<open>TRACE\<close> output is left out).\<close>

datatype message =
    ERR_grow_shm_addrs int
  | ERR_map_page int
  | FIXME_too_many_handles handle
  | ERR_server_with_fsync
  | ERR_cannot_stat
  | ERR_open_shm_stale
  | ERR_open_shm_other int

text \<open>
  The ways a call can end without returning: an access through a null pointer or outside
  an array, an integer division by zero, and \<open>exit\<close>.
\<close>

datatype abort = Invalid_access | Division_by_zero | Exit int

text \<open>
  A function that can end this way returns \<open>Inl (a, s)\<close>, the abort and the state
  reached when it happened, and \<open>Inr\<close> of its result otherwise.
\<close>

text \<open>
  The request \<open>create_fsync\<close> sends to the server: access, low, high and the serialised
  object attributes. The type of the object is not part of it.
\<close>

record create_fsync_request =
  req_access :: "32 word"
  req_low :: int
  req_high :: int
  req_objattr :: "8 word list"

text \<open>
  The file-scope variables. \<open>shm_addrs\<close> is \<open>None\<close> for the null pointer and otherwise
  the contents of the allocated array (its allocated length is the list's length, kept
  apart from the variable \<open>shm_addrs_size\<close> as in the source). An entry of \<open>fsync_list\<close>
  is \<open>None\<close> for the null pointer and otherwise the contents of the block it points to;
  block 0 is \<open>fsync_list_initial_block\<close>, which is reached through \<open>fsync_list[0]\<close> only.
  The last four fields record effects: the set of pages this process has mapped with
  \<open>mmap\<close> and not unmapped, the diagnostics printed, the number of futex probes made
  and the requests sent to the server.
\<close>

record fsync_state =
  do_fsync_cached :: int
  shm_fd :: int
  shm_addrs :: "pointer list option"
  shm_addrs_size :: int
  pagesize :: int
  fsync_list :: "nat \<Rightarrow> (nat \<Rightarrow> fsync) option"
  mapped :: "pointer set"
  messages :: "message list"
  futex_probes :: nat
  server_requests :: "create_fsync_request list"

text \<open>The state at process start: statics are zero, \<open>do_fsync_cached\<close> is -1.\<close>

definition zero_block :: "nat \<Rightarrow> fsync" where
  "zero_block = (\<lambda>_. \<lparr>type = 0, shm = 0\<rparr>)"

definition initial_state :: fsync_state where
  "initial_state = \<lparr>do_fsync_cached = - 1, shm_fd = 0, shm_addrs = None,
     shm_addrs_size = 0, pagesize = 0, fsync_list = (\<lambda>_. None), mapped = {},
     messages = [], futex_probes = 0, server_requests = []\<rparr>"

section \<open>Handle cache\<close>

text \<open>
  \<open>handle_to_index\<close> returns the pair (\<open>*entry\<close>, result): the block number and the index
  inside the block. The subtraction is the unsigned 64-bit one and wraps.
\<close>

definition handle_to_index :: "handle \<Rightarrow> 64 word \<times> 64 word" where
  "handle_to_index handle =
     (let idx = drop_bit 2 handle - 1
      in (idx div of_nat FSYNC_LIST_BLOCK_SIZE, idx mod of_nat FSYNC_LIST_BLOCK_SIZE))"

text \<open>Reading \<open>fsync_list[entry]\<close>: an index outside the array is an invalid access.\<close>

definition fsync_list_read :: "fsync_state \<Rightarrow> nat \<Rightarrow> abort + (nat \<Rightarrow> fsync) option" where
  "fsync_list_read s entry =
     (if entry < FSYNC_LIST_ENTRIES then Inr (fsync_list s entry) else Inl Invalid_access)"

text \<open>
  Reading and writing \<open>fsync_list[entry][idx]\<close>: invalid outside either array and
  through a null block pointer.
\<close>

definition fsync_read :: "fsync_state \<Rightarrow> nat \<Rightarrow> nat \<Rightarrow> abort + fsync" where
  "fsync_read s entry idx =
     (case fsync_list_read s entry of
        Inl e \<Rightarrow> Inl e
      | Inr None \<Rightarrow> Inl Invalid_access
      | Inr (Some b) \<Rightarrow> if idx < FSYNC_LIST_BLOCK_SIZE then Inr (b idx) else Inl Invalid_access)"

definition fsync_write :: "fsync_state \<Rightarrow> nat \<Rightarrow> nat \<Rightarrow> fsync \<Rightarrow> abort + fsync_state" where
  "fsync_write s entry idx r =
     (case fsync_list_read s entry of
        Inl e \<Rightarrow> Inl e
      | Inr None \<Rightarrow> Inl Invalid_access
      | Inr (Some b) \<Rightarrow>
          if idx < FSYNC_LIST_BLOCK_SIZE
          then Inr (s\<lparr>fsync_list := (fsync_list s)(entry := Some (b(idx := r)))\<rparr>)
          else Inl Invalid_access)"

text \<open>
  Lines 176 to 186 of \<open>add_to_list\<close>: allocate the block if its pointer is null. The
  argument \<open>anon_ok\<close> says whether \<open>anon_mmap_alloc\<close> succeeds; it returns zero-filled
  memory. \<open>None\<close> is the early \<open>return FALSE\<close>.
\<close>

definition add_to_list_alloc :: "bool \<Rightarrow> fsync_state \<Rightarrow> nat \<Rightarrow> abort + fsync_state option" where
  "add_to_list_alloc anon_ok s entry =
     (case fsync_list_read s entry of
        Inl e \<Rightarrow> Inl e
      | Inr (Some b) \<Rightarrow> Inr (Some s)
      | Inr None \<Rightarrow>
          if entry = 0 then Inr (Some (s\<lparr>fsync_list := (fsync_list s)(0 := Some zero_block)\<rparr>))
          else if \<not> anon_ok then Inr None
          else Inr (Some (s\<lparr>fsync_list := (fsync_list s)(entry := Some zero_block)\<rparr>)))"

text \<open>
  Line 188, one atomic step: \<open>__sync_val_compare_and_swap(&fsync_list[entry][idx].type, 0, type)\<close>.
  It returns the value found and stores \<open>type\<close> if that value was 0.
\<close>

definition add_to_list_cas :: "fsync_state \<Rightarrow> nat \<Rightarrow> nat \<Rightarrow> 32 word \<Rightarrow> abort + (32 word \<times> fsync_state)" where
  "add_to_list_cas s entry idx t =
     (case fsync_read s entry idx of
        Inl e \<Rightarrow> Inl e
      | Inr r \<Rightarrow>
          if type r = 0
          then (case fsync_write s entry idx (r\<lparr>type := t\<rparr>) of
                  Inl e \<Rightarrow> Inl e
                | Inr s' \<Rightarrow> Inr (type r, s'))
          else Inr (type r, s))"

text \<open>Line 189, a separate plain store: \<open>fsync_list[entry][idx].shm = shm\<close>.\<close>

definition add_to_list_store :: "fsync_state \<Rightarrow> nat \<Rightarrow> nat \<Rightarrow> pointer \<Rightarrow> abort + fsync_state" where
  "add_to_list_store s entry idx p =
     (case fsync_read s entry idx of
        Inl e \<Rightarrow> Inl e
      | Inr r \<Rightarrow> fsync_write s entry idx (r\<lparr>shm := p\<rparr>))"

text \<open>
  \<open>add_to_list\<close> returns \<open>&fsync_list[entry][idx]\<close>, modelled as \<open>Some (entry, idx)\<close>, or
  \<open>FALSE\<close>, the null pointer, modelled as \<open>None\<close>. It runs the three pieces above in
  the order of the source: allocation, the compare-and-swap of the type, and then, only
  if the compare-and-swap found 0, the store of the pointer.
\<close>

definition add_to_list :: "bool \<Rightarrow> fsync_state \<Rightarrow> handle \<Rightarrow> 32 word \<Rightarrow> pointer
    \<Rightarrow> (abort \<times> fsync_state) + ((nat \<times> nat) option \<times> fsync_state)" where
  "add_to_list anon_ok s handle t p =
     (let (entry, idx) = handle_to_index handle
      in if unat entry \<ge> FSYNC_LIST_ENTRIES
         then Inr (None, s\<lparr>messages := messages s @ [FIXME_too_many_handles handle]\<rparr>)
         else
           (case add_to_list_alloc anon_ok s (unat entry) of
              Inl e \<Rightarrow> Inl (e, s)
            | Inr None \<Rightarrow> Inr (None, s)
            | Inr (Some s1) \<Rightarrow>
                (case add_to_list_cas s1 (unat entry) (unat idx) t of
                   Inl e \<Rightarrow> Inl (e, s1)
                 | Inr (old, s2) \<Rightarrow>
                     if old = 0
                     then (case add_to_list_store s2 (unat entry) (unat idx) p of
                             Inl e \<Rightarrow> Inl (e, s2)
                           | Inr s3 \<Rightarrow> Inr (Some (unat entry, unat idx), s3))
                     else Inr (Some (unat entry, unat idx), s2))))"

definition get_cached_object :: "fsync_state \<Rightarrow> handle
    \<Rightarrow> (abort \<times> fsync_state) + (nat \<times> nat) option" where
  "get_cached_object s handle =
     (let (entry, idx) = handle_to_index handle
      in if unat entry \<ge> FSYNC_LIST_ENTRIES then Inr None
         else
           (case fsync_list_read s (unat entry) of
              Inl e \<Rightarrow> Inl (e, s)
            | Inr None \<Rightarrow> Inr None
            | Inr (Some b) \<Rightarrow>
                (case fsync_read s (unat entry) (unat idx) of
                   Inl e \<Rightarrow> Inl (e, s)
                 | Inr r \<Rightarrow> if type r = 0 then Inr None else Inr (Some (unat entry, unat idx)))))"

section \<open>Shared page pool\<close>

text \<open>
  What the C library and the kernel answer during one call of \<open>get_shm\<close>: whether
  \<open>realloc\<close> succeeds, the indeterminate contents of the memory it adds (by index),
  and the value \<open>mmap\<close> returns.
\<close>

record shm_env =
  realloc_ok :: bool
  heap_junk :: "nat \<Rightarrow> pointer"
  mmap_ret :: pointer

text \<open>The conversion of a \<open>long\<close> to \<open>int\<close> keeps the low 32 bits.\<close>

definition long_to_int :: "int \<Rightarrow> int" where
  "long_to_int x = sint (word_of_int x :: 32 word)"

text \<open>
  Reading and writing \<open>shm_addrs[entry]\<close>: invalid through the null pointer and outside
  the allocated array.
\<close>

definition shm_addrs_read :: "fsync_state \<Rightarrow> int \<Rightarrow> abort + pointer" where
  "shm_addrs_read s entry =
     (case shm_addrs s of
        None \<Rightarrow> Inl Invalid_access
      | Some xs \<Rightarrow>
          if 0 \<le> entry \<and> nat entry < length xs then Inr (xs ! nat entry)
          else Inl Invalid_access)"

definition shm_addrs_write :: "fsync_state \<Rightarrow> int \<Rightarrow> pointer \<Rightarrow> abort + fsync_state" where
  "shm_addrs_write s entry v =
     (case shm_addrs s of
        None \<Rightarrow> Inl Invalid_access
      | Some xs \<Rightarrow>
          if 0 \<le> entry \<and> nat entry < length xs
          then Inr (s\<lparr>shm_addrs := Some (xs[nat entry := v])\<rparr>)
          else Inl Invalid_access)"

text \<open>
  \<open>realloc\<close> to \<open>n\<close> elements keeps the old contents and leaves the rest
  indeterminate; \<open>memset\<close> of \<open>n\<close> elements from index \<open>from\<close> is invalid outside the
  array.
\<close>

definition realloc :: "(nat \<Rightarrow> pointer) \<Rightarrow> pointer list \<Rightarrow> nat \<Rightarrow> pointer list" where
  "realloc junk xs n = map (\<lambda>j. if j < length xs then xs ! j else junk j) [0..<n]"

definition memset :: "pointer list \<Rightarrow> int \<Rightarrow> pointer \<Rightarrow> int \<Rightarrow> abort + pointer list" where
  "memset xs from v n =
     (if 0 \<le> from \<and> 0 \<le> n \<and> nat (from + n) \<le> length xs
      then Inr (take (nat from) xs @ replicate (nat n) v @ drop (nat (from + n)) xs)
      else Inl Invalid_access)"

text \<open>
  Lines 125 to 133 of \<open>get_shm\<close>. When \<open>realloc\<close> fails the source prints the
  diagnostic (with the old size), has already overwritten \<open>shm_addrs\<close> with the null
  pointer, and goes on to \<open>memset\<close> through it; the number of bytes is positive, since
  \<open>new_size > shm_addrs_size\<close>.
\<close>

definition get_shm_grow :: "shm_env \<Rightarrow> fsync_state \<Rightarrow> int \<Rightarrow> (abort \<times> fsync_state) + fsync_state" where
  "get_shm_grow env s entry =
     (if entry \<ge> shm_addrs_size s
      then
        (let new_size = max (shm_addrs_size s * 2) (entry + 1)
         in if \<not> realloc_ok env
            then Inl (Invalid_access,
                      s\<lparr>shm_addrs := None,
                        messages := messages s @ [ERR_grow_shm_addrs (shm_addrs_size s)]\<rparr>)
            else
              (case memset (realloc (heap_junk env) (case shm_addrs s of None \<Rightarrow> [] | Some xs \<Rightarrow> xs)
                              (nat new_size))
                      (shm_addrs_size s) 0 (new_size - shm_addrs_size s) of
                 Inl e \<Rightarrow> Inl (e, s)
               | Inr xs' \<Rightarrow> Inr (s\<lparr>shm_addrs := Some xs', shm_addrs_size := new_size\<rparr>)))
      else Inr s)"

text \<open>
  Lines 137 to 141: the call of \<open>mmap\<close> returning \<open>addr\<close>, and the diagnostic when it is
  \<open>MAP_FAILED\<close>.
\<close>

definition get_shm_mmap :: "fsync_state \<Rightarrow> int \<Rightarrow> pointer \<Rightarrow> fsync_state" where
  "get_shm_mmap s entry addr =
     (if addr = MAP_FAILED then s\<lparr>messages := messages s @ [ERR_map_page entry]\<rparr>
      else s\<lparr>mapped := insert addr (mapped s)\<rparr>)"

text \<open>
  Line 143, one atomic step: \<open>__sync_val_compare_and_swap(&shm_addrs[entry], 0, addr)\<close>.
\<close>

definition get_shm_cas :: "fsync_state \<Rightarrow> int \<Rightarrow> pointer \<Rightarrow> abort + (pointer \<times> fsync_state)" where
  "get_shm_cas s entry addr =
     (case shm_addrs_read s entry of
        Inl e \<Rightarrow> Inl e
      | Inr old \<Rightarrow>
          if old = 0
          then (case shm_addrs_write s entry addr of
                  Inl e \<Rightarrow> Inl e
                | Inr s' \<Rightarrow> Inr (old, s'))
          else Inr (old, s))"

text \<open>Line 144: \<open>munmap(addr, pagesize)\<close>.\<close>

definition get_shm_munmap :: "fsync_state \<Rightarrow> pointer \<Rightarrow> fsync_state" where
  "get_shm_munmap s addr = s\<lparr>mapped := mapped s - {addr}\<rparr>"

text \<open>Lines 135 to 145 of \<open>get_shm\<close>, run by one caller without interruption.\<close>

definition get_shm_map :: "shm_env \<Rightarrow> fsync_state \<Rightarrow> int \<Rightarrow> (abort \<times> fsync_state) + fsync_state" where
  "get_shm_map env s entry =
     (case shm_addrs_read s entry of
        Inl e \<Rightarrow> Inl (e, s)
      | Inr a \<Rightarrow>
          if a = 0
          then
            (let addr = mmap_ret env;
                 s1 = get_shm_mmap s entry addr
             in case get_shm_cas s1 entry addr of
                  Inl e \<Rightarrow> Inl (e, s1)
                | Inr (old, s2) \<Rightarrow> Inr (if old \<noteq> 0 then get_shm_munmap s2 addr else s2))
          else Inr s)"

text \<open>
  \<open>idx * 8\<close> is a product of \<open>unsigned int\<close> and wraps at \<open>2^32\<close>; it is converted to
  \<open>long\<close> for the division by \<open>pagesize\<close>, which truncates towards zero and traps when
  \<open>pagesize\<close> is 0; quotient and remainder are stored in \<open>int\<close>. The result is
  \<open>(unsigned long)shm_addrs[entry] + offset\<close>, a 64-bit sum.
\<close>

definition get_shm :: "shm_env \<Rightarrow> fsync_state \<Rightarrow> 32 word
    \<Rightarrow> (abort \<times> fsync_state) + (pointer \<times> fsync_state)" where
  "get_shm env s idx =
     (if pagesize s = 0 then Inl (Division_by_zero, s)
      else
        (let entry = long_to_int (uint (idx * 8) sdiv pagesize s);
             offset = long_to_int (uint (idx * 8) smod pagesize s)
         in case get_shm_grow env s entry of
              Inl x \<Rightarrow> Inl x
            | Inr s1 \<Rightarrow>
                (case get_shm_map env s1 entry of
                   Inl x \<Rightarrow> Inl x
                 | Inr s2 \<Rightarrow>
                     (case shm_addrs_read s2 entry of
                        Inl e \<Rightarrow> Inl (e, s2)
                      | Inr a \<Rightarrow> Inr (a + word_of_int offset, s2)))))"

subsection \<open>Two callers of get\_shm, interleaved\<close>

text \<open>
  Lines 135 to 147 as the atomic steps one caller takes: the test of
  \<open>shm_addrs[entry]\<close>, the \<open>mmap\<close>, the compare-and-swap, the \<open>munmap\<close> of the
  loser, and the final read that forms the result. A caller is at one of these
  points; \<open>addr\<close> is the value \<open>mmap\<close> returns to this caller.
\<close>

datatype shm_pc =
    At_test
  | At_mmap
  | At_cas pointer
  | At_munmap pointer
  | At_return
  | Returned pointer

definition get_shm_step :: "int \<Rightarrow> int \<Rightarrow> pointer \<Rightarrow> shm_pc \<Rightarrow> fsync_state
    \<Rightarrow> abort + (shm_pc \<times> fsync_state)" where
  "get_shm_step entry offset addr pc s =
     (case pc of
        At_test \<Rightarrow>
          (case shm_addrs_read s entry of
             Inl e \<Rightarrow> Inl e
           | Inr a \<Rightarrow> Inr (if a = 0 then At_mmap else At_return, s))
      | At_mmap \<Rightarrow> Inr (At_cas addr, get_shm_mmap s entry addr)
      | At_cas a \<Rightarrow>
          (case get_shm_cas s entry a of
             Inl e \<Rightarrow> Inl e
           | Inr (old, s') \<Rightarrow> Inr (if old \<noteq> 0 then At_munmap a else At_return, s'))
      | At_munmap a \<Rightarrow> Inr (At_return, get_shm_munmap s a)
      | At_return \<Rightarrow>
          (case shm_addrs_read s entry of
             Inl e \<Rightarrow> Inl e
           | Inr a \<Rightarrow> Inr (Returned (a + word_of_int offset), s))
      | Returned p \<Rightarrow> Inr (Returned p, s))"

text \<open>
  Two callers of \<open>get_shm\<close> for the same slot, whose \<open>mmap\<close> calls return \<open>addr1\<close>
  and \<open>addr2\<close>, run under a schedule: \<open>True\<close> lets the first caller take its next
  step, \<open>False\<close> the second.
\<close>

fun get_shm_race :: "int \<Rightarrow> int \<Rightarrow> pointer \<Rightarrow> pointer \<Rightarrow> bool list
    \<Rightarrow> shm_pc \<times> shm_pc \<times> fsync_state \<Rightarrow> abort + (shm_pc \<times> shm_pc \<times> fsync_state)" where
  "get_shm_race entry offset addr1 addr2 [] c = Inr c"
| "get_shm_race entry offset addr1 addr2 (True # sched) (pc1, pc2, s) =
     (case get_shm_step entry offset addr1 pc1 s of
        Inl e \<Rightarrow> Inl e
      | Inr (pc1', s') \<Rightarrow> get_shm_race entry offset addr1 addr2 sched (pc1', pc2, s'))"
| "get_shm_race entry offset addr1 addr2 (False # sched) (pc1, pc2, s) =
     (case get_shm_step entry offset addr2 pc2 s of
        Inl e \<Rightarrow> Inl e
      | Inr (pc2', s') \<Rightarrow> get_shm_race entry offset addr1 addr2 sched (pc1, pc2', s'))"




section \<open>Feature gate\<close>

text \<open>
  What the environment answers while \<open>do_fsync\<close> computes its decision: the value of
  \<open>getenv("WINEFSYNC")\<close> (\<open>None\<close> for the null pointer), the C library's \<open>atoi\<close>, and
  the value of \<open>errno\<close> when the condition reads it, after the probing
  \<open>futex_wait_multiple(NULL, 0, &zero)\<close>.
\<close>

record gate_env =
  getenv_WINEFSYNC :: "string option"
  atoi :: "string \<Rightarrow> int"
  errno_after_probe :: int

definition do_fsync :: "gate_env \<Rightarrow> fsync_state \<Rightarrow> int \<times> fsync_state" where
  "do_fsync env s =
     (if do_fsync_cached s = - 1
      then
        (let v = (case getenv_WINEFSYNC env of
                    None \<Rightarrow> 0
                  | Some str \<Rightarrow>
                      if atoi env str \<noteq> 0 \<and> errno_after_probe env \<noteq> ENOSYS then 1 else 0)
         in (v, s\<lparr>do_fsync_cached := v, futex_probes := futex_probes s + 1\<rparr>))
      else (do_fsync_cached s, s))"

text \<open>Successive calls of \<open>do_fsync\<close> in one process, each with its own environment.\<close>

fun do_fsync_calls :: "gate_env list \<Rightarrow> fsync_state \<Rightarrow> int list \<times> fsync_state" where
  "do_fsync_calls [] s = ([], s)"
| "do_fsync_calls (env # envs) s =
     (let (v, s1) = do_fsync env s;
          (vs, s2) = do_fsync_calls envs s1
      in (v # vs, s2))"

section \<open>Object creation\<close>

text \<open>
  The reply \<open>create_fsync\<close> reads. The handle is taken after
  \<open>wine_server_ptr_handle\<close>.
\<close>

record create_fsync_reply =
  status :: ntstatus
  reply_handle :: handle
  reply_shm_idx :: "32 word"

text \<open>
  What the rest of the process and the server answer during one call of
  \<open>create_fsync\<close>: \<open>alloc_object_attributes\<close> (status and serialised attributes for an
  attribute argument, here the optional object name), the server's reply to a request,
  and the answers \<open>get_shm\<close> and \<open>add_to_list\<close> consume.
\<close>

record create_env =
  alloc_object_attributes :: "string option \<Rightarrow> ntstatus \<times> 8 word list"
  wine_server_call :: "create_fsync_request \<Rightarrow> create_fsync_reply"
  shm_answers :: shm_env
  anon_mmap_ok :: bool

text \<open>
  \<open>create_fsync\<close> returns the status, the value written to \<open>*handle\<close> (\<open>None\<close> when
  it is not written) and the state. The result of \<open>add_to_list\<close> is dropped, as in the
  source.
\<close>

definition create_fsync :: "create_env \<Rightarrow> fsync_state \<Rightarrow> 32 word \<Rightarrow> 32 word \<Rightarrow> string option
    \<Rightarrow> int \<Rightarrow> int \<Rightarrow> (abort \<times> fsync_state) + (ntstatus \<times> handle option \<times> fsync_state)" where
  "create_fsync env s t access attr low high =
     (let (ret, objattr) = alloc_object_attributes env attr
      in if ret \<noteq> 0 then Inr (ret, None, s)
         else
           (let req = \<lparr>req_access = access, req_low = low, req_high = high, req_objattr = objattr\<rparr>;
                reply = wine_server_call env req;
                ret = status reply;
                s1 = s\<lparr>server_requests := server_requests s @ [req]\<rparr>
            in if ret = 0 \<or> ret = STATUS_OBJECT_NAME_EXISTS
               then
                 (case get_shm (shm_answers env) s1 (reply_shm_idx reply) of
                    Inl x \<Rightarrow> Inl x
                  | Inr (p, s2) \<Rightarrow>
                      (case add_to_list (anon_mmap_ok env) s2 (reply_handle reply) t p of
                         Inl x \<Rightarrow> Inl x
                       | Inr (cached, s3) \<Rightarrow> Inr (ret, Some (reply_handle reply), s3)))
               else Inr (ret, None, s1)))"

definition fsync_create_semaphore :: "create_env \<Rightarrow> fsync_state \<Rightarrow> 32 word \<Rightarrow> string option
    \<Rightarrow> int \<Rightarrow> int \<Rightarrow> (abort \<times> fsync_state) + (ntstatus \<times> handle option \<times> fsync_state)" where
  "fsync_create_semaphore env s access attr initial maxi =
     create_fsync env s FSYNC_SEMAPHORE access attr initial maxi"

section \<open>Initialisation\<close>

text \<open>
  What \<open>fsync_init\<close> is answered: the environments of its calls of \<open>do_fsync\<close> and
  \<open>create_fsync\<close>, the results of \<open>stat\<close>, \<open>shm_open\<close> (with \<open>errno\<close> after it) and
  \<open>sysconf(_SC_PAGESIZE)\<close>, and whether \<open>calloc\<close> succeeds. The name of the shared
  file, printed from the inode of the configuration directory, only feeds \<open>shm_open\<close>
  and is left out.
\<close>

record init_env =
  gate_answers :: gate_env
  create_answers :: create_env
  stat_ret :: int
  shm_open_ret :: int
  shm_open_errno :: int
  sysconf_pagesize :: int
  calloc_ok :: bool

definition fsync_init :: "init_env \<Rightarrow> fsync_state \<Rightarrow> (abort \<times> fsync_state) + fsync_state" where
  "fsync_init env s =
     (let (enabled, s1) = do_fsync (gate_answers env) s
      in if enabled = 0
         then
           (case create_fsync (create_answers env) s1 0 0 None 0 0 of
              Inl x \<Rightarrow> Inl x
            | Inr (ret, handle, s2) \<Rightarrow>
                if ret \<noteq> STATUS_NOT_IMPLEMENTED
                then Inl (Exit 1, s2\<lparr>messages := messages s2 @ [ERR_server_with_fsync]\<rparr>)
                else Inr s2)
         else
           (let s2 = (if stat_ret env = - 1
                      then s1\<lparr>messages := messages s1 @ [ERR_cannot_stat]\<rparr> else s1);
                s3 = s2\<lparr>shm_fd := shm_open_ret env\<rparr>
            in if shm_open_ret env = - 1
               then Inl (Exit 1,
                         s3\<lparr>messages := messages s3 @
                              [if shm_open_errno env = ENOENT then ERR_open_shm_stale
                               else ERR_open_shm_other (shm_open_errno env)]\<rparr>)
               else Inr (s3\<lparr>pagesize := sysconf_pagesize env,
                             shm_addrs := (if calloc_ok env then Some (replicate 128 0) else None),
                             shm_addrs_size := 128\<rparr>)))"

section \<open>Concrete states\<close>

text \<open>
  The states a first \<open>add_to_list(4, FSYNC_SEMAPHORE, 0x7F0000001000)\<close> goes through
  from the state at process start (handle 4 is index 0 of block 0): after the
  allocation of block 0, after the compare-and-swap of the type, and after the store of
  the pointer.
\<close>

definition writer_after_alloc :: fsync_state where
  "writer_after_alloc = initial_state\<lparr>fsync_list := (\<lambda>_. None)(0 := Some zero_block)\<rparr>"

definition writer_after_cas :: fsync_state where
  "writer_after_cas = initial_state\<lparr>fsync_list :=
     (\<lambda>_. None)(0 := Some (zero_block(0 := \<lparr>type = FSYNC_SEMAPHORE, shm = 0\<rparr>)))\<rparr>"

definition published_state :: fsync_state where
  "published_state = initial_state\<lparr>fsync_list :=
     (\<lambda>_. None)(0 := Some (zero_block(0 := \<lparr>type = FSYNC_SEMAPHORE, shm = 0x7F0000001000\<rparr>)))\<rparr>"

text \<open>
  The state after a successful \<open>fsync_init\<close> with the subsystem enabled, descriptor 3
  and 4096-byte pages.
\<close>

definition ready_state :: fsync_state where
  "ready_state = initial_state\<lparr>do_fsync_cached := 1, shm_fd := 3,
     shm_addrs := Some (replicate 128 0), shm_addrs_size := 128, pagesize := 4096,
     futex_probes := 1\<rparr>"

text \<open>
  Answers to \<open>get_shm\<close>: a successful run, one where \<open>realloc\<close> fails and one
  where \<open>mmap\<close> fails.
\<close>

definition shm_env_ok :: shm_env where
  "shm_env_ok = \<lparr>realloc_ok = True, heap_junk = (\<lambda>_. 0xDEADBEEF), mmap_ret = 0x7F0000001000\<rparr>"

definition shm_env_no_memory :: shm_env where
  "shm_env_no_memory = \<lparr>realloc_ok = False, heap_junk = (\<lambda>_. 0xDEADBEEF), mmap_ret = 0x7F0000001000\<rparr>"

definition shm_env_map_failed :: shm_env where
  "shm_env_map_failed = \<lparr>realloc_ok = True, heap_junk = (\<lambda>_. 0xDEADBEEF), mmap_ret = MAP_FAILED\<rparr>"

text \<open>
  The state after the first \<open>get_shm(40)\<close> from \<open>ready_state\<close> (page 0 mapped at
  \<open>0x7F0000001000\<close>), and a schedule in which two callers both pass the test of
  \<open>shm_addrs[0]\<close> before either publishes.
\<close>

definition page0_mapped_state :: fsync_state where
  "page0_mapped_state = ready_state\<lparr>shm_addrs := Some ((replicate 128 0)[0 := 0x7F0000001000]),
     mapped := {0x7F0000001000}\<rparr>"


text \<open>
  Answers of the environment: \<open>WINEFSYNC=1\<close> with a kernel that has the futex
  operation, no \<open>WINEFSYNC\<close>, and \<open>WINEFSYNC=1\<close> on a kernel without it; a server that
  does not implement the request, one that denies access, and one that creates the
  object with a given handle and index; and the answers to \<open>fsync_init\<close> built from them.
\<close>

definition gate_enabled :: gate_env where
  "gate_enabled = \<lparr>getenv_WINEFSYNC = Some ''1'',
     atoi = (\<lambda>str. if str = ''1'' then 1 else 0), errno_after_probe = 0\<rparr>"

definition gate_unset :: gate_env where
  "gate_unset = \<lparr>getenv_WINEFSYNC = None,
     atoi = (\<lambda>str. if str = ''1'' then 1 else 0), errno_after_probe = 0\<rparr>"

definition gate_no_futex :: gate_env where
  "gate_no_futex = \<lparr>getenv_WINEFSYNC = Some ''1'',
     atoi = (\<lambda>str. if str = ''1'' then 1 else 0), errno_after_probe = ENOSYS\<rparr>"

definition server_not_implemented :: create_env where
  "server_not_implemented = \<lparr>alloc_object_attributes = (\<lambda>_. (0, [])),
     wine_server_call = (\<lambda>_. \<lparr>status = STATUS_NOT_IMPLEMENTED, reply_handle = 0, reply_shm_idx = 0\<rparr>),
     shm_answers = shm_env_ok, anon_mmap_ok = True\<rparr>"

definition server_access_denied :: create_env where
  "server_access_denied = \<lparr>alloc_object_attributes = (\<lambda>_. (0, [])),
     wine_server_call = (\<lambda>_. \<lparr>status = 0xC0000022, reply_handle = 0, reply_shm_idx = 0\<rparr>),
     shm_answers = shm_env_ok, anon_mmap_ok = True\<rparr>"

definition server_creates :: "handle \<Rightarrow> 32 word \<Rightarrow> create_env" where
  "server_creates h i = \<lparr>alloc_object_attributes = (\<lambda>_. (0, [])),
     wine_server_call = (\<lambda>_. \<lparr>status = 0, reply_handle = h, reply_shm_idx = i\<rparr>),
     shm_answers = shm_env_ok, anon_mmap_ok = True\<rparr>"

definition semaphore_request :: create_fsync_request where
  "semaphore_request = \<lparr>req_access = 0, req_low = 0, req_high = 5, req_objattr = []\<rparr>"

definition created_state :: fsync_state where
  "created_state = page0_mapped_state\<lparr>
     fsync_list := (\<lambda>_. None)(0 := Some (zero_block(1 := \<lparr>type = FSYNC_SEMAPHORE, shm = 0x7F0000001140\<rparr>))),
     server_requests := [semaphore_request]\<rparr>"

definition probe_request :: create_fsync_request where
  "probe_request = \<lparr>req_access = 0, req_low = 0, req_high = 0, req_objattr = []\<rparr>"

definition init_enabled :: "create_env \<Rightarrow> init_env" where
  "init_enabled server = \<lparr>gate_answers = gate_enabled, create_answers = server, stat_ret = 0,
     shm_open_ret = 3, shm_open_errno = 0, sysconf_pagesize = 4096, calloc_ok = True\<rparr>"

definition init_disabled :: "create_env \<Rightarrow> init_env" where
  "init_disabled server = \<lparr>gate_answers = gate_unset, create_answers = server, stat_ret = 0,
     shm_open_ret = 3, shm_open_errno = 0, sysconf_pagesize = 4096, calloc_ok = True\<rparr>"

section \<open>Properties of the handle cache\<close>

lemmas cache_defs = add_to_list_alloc_def add_to_list_cas_def add_to_list_store_def
  fsync_read_def fsync_write_def fsync_list_read_def

lemma fsync_update_all [simp]: "r\<lparr>type := t, shm := p\<rparr> = \<lparr>type = t, shm = p\<rparr>"
  by (cases r) simp

lemma handle_to_index_null:
  assumes "drop_bit 2 handle = 0"
  shows "handle_to_index handle = (0xFFFFFFFFFFFFF, 0xFFF)"
  using assms by (simp add: handle_to_index_def FSYNC_LIST_BLOCK_SIZE_def sizeof_fsync_def)

lemma handle_to_index_idx_bound:
  "unat (snd (handle_to_index handle)) < FSYNC_LIST_BLOCK_SIZE"
proof -
  have "unat ((drop_bit 2 handle - 1) mod 4096) < unat (4096 :: 64 word)"
    by (rule unat_mono) (simp add: word_mod_less_divisor)
  then show ?thesis
    by (simp add: handle_to_index_def Let_def FSYNC_LIST_BLOCK_SIZE_def sizeof_fsync_def)
qed

lemma add_to_list_out_of_range:
  assumes "FSYNC_LIST_ENTRIES \<le> unat (fst (handle_to_index h))"
  shows "add_to_list anon_ok s h t p =
           Inr (None, s\<lparr>messages := messages s @ [FIXME_too_many_handles h]\<rparr>)"
  using assms by (simp add: add_to_list_def Let_def split_beta)

lemma add_to_list_published:
  assumes "unat (fst (handle_to_index h)) = e" and "unat (snd (handle_to_index h)) = i"
    and "e < FSYNC_LIST_ENTRIES" and "fsync_list s e = Some b" and "type (b i) \<noteq> 0"
  shows "add_to_list anon_ok s h t p = Inr (Some (e, i), s)"
  using assms handle_to_index_idx_bound [of h]
  by (simp add: add_to_list_def Let_def split_beta cache_defs)

lemma add_to_list_free_slot:
  assumes "unat (fst (handle_to_index h)) = e" and "unat (snd (handle_to_index h)) = i"
    and "e < FSYNC_LIST_ENTRIES" and "fsync_list s e = Some b" and "type (b i) = 0"
  shows "add_to_list anon_ok s h t p =
           Inr (Some (e, i),
                s\<lparr>fsync_list := (fsync_list s)(e := Some (b(i := \<lparr>type = t, shm = p\<rparr>)))\<rparr>)"
  using assms handle_to_index_idx_bound [of h]
  by (simp add: add_to_list_def Let_def split_beta cache_defs)

lemma add_to_list_new_block:
  assumes "unat (fst (handle_to_index h)) = e" and "unat (snd (handle_to_index h)) = i"
    and "e < FSYNC_LIST_ENTRIES" and "fsync_list s e = None" and "e = 0 \<or> anon_ok"
  shows "add_to_list anon_ok s h t p =
           Inr (Some (e, i),
                s\<lparr>fsync_list := (fsync_list s)(e := Some (zero_block(i := \<lparr>type = t, shm = p\<rparr>)))\<rparr>)"
  using assms handle_to_index_idx_bound [of h]
  by (auto simp add: add_to_list_def Let_def split_beta cache_defs zero_block_def)

lemma add_to_list_no_block:
  assumes "unat (fst (handle_to_index h)) = e"
    and "e < FSYNC_LIST_ENTRIES" and "fsync_list s e = None" and "e \<noteq> 0" and "\<not> anon_ok"
  shows "add_to_list anon_ok s h t p = Inr (None, s)"
  using assms
  by (simp add: add_to_list_def Let_def split_beta cache_defs)

lemma fsync_read_Inr_iff:
  "fsync_read s e i = Inr r \<longleftrightarrow>
     e < FSYNC_LIST_ENTRIES \<and> i < FSYNC_LIST_BLOCK_SIZE \<and> (\<exists>b. fsync_list s e = Some b \<and> b i = r)"
  by (auto simp: fsync_read_def fsync_list_read_def split: option.splits)

lemma fsync_read_messages [simp]:
  "fsync_read (s\<lparr>messages := m\<rparr>) e i = fsync_read s e i"
  by (simp add: fsync_read_def fsync_list_read_def)

lemma get_cached_object_out_of_range:
  assumes "FSYNC_LIST_ENTRIES \<le> unat (fst (handle_to_index h))"
  shows "get_cached_object s h = Inr None"
  using assms by (simp add: get_cached_object_def Let_def split_beta)

lemma get_cached_object_no_block:
  assumes "fsync_list s (unat (fst (handle_to_index h))) = None"
  shows "get_cached_object s h = Inr None"
  using assms by (simp add: get_cached_object_def Let_def split_beta cache_defs)

lemma get_cached_object_block:
  assumes "unat (fst (handle_to_index h)) = e" and "unat (snd (handle_to_index h)) = i"
    and "e < FSYNC_LIST_ENTRIES" and "fsync_list s e = Some b"
  shows "get_cached_object s h = (if type (b i) = 0 then Inr None else Inr (Some (e, i)))"
  using assms handle_to_index_idx_bound [of h]
  by (simp add: get_cached_object_def Let_def split_beta cache_defs)

text \<open>
  C7. Once the type of a record is nonzero, no call of \<open>add_to_list\<close>, for whatever
  handle, changes the record: the call returns, and the record reads as before. For
  the record's own handle the compare-and-swap finds the nonzero type and stores
  nothing, the store of the pointer is skipped, the whole state is unchanged and the
  call returns the record. So a type is written only over 0, and the pointer only by
  the call whose compare-and-swap found 0.
\<close>

theorem published_record_is_final:
  assumes "fsync_read s e i = Inr r" and "type r \<noteq> 0"
  shows "\<exists>res s'. add_to_list anon_ok s h t p = Inr (res, s')
           \<and> fsync_read s' e i = Inr r
           \<and> ((e, i) = (unat (fst (handle_to_index h)), unat (snd (handle_to_index h)))
                \<longrightarrow> res = Some (e, i) \<and> s' = s \<and> add_to_list_cas s e i t = Inr (type r, s))"
proof -
  define e' where "e' = unat (fst (handle_to_index h))"
  define i' where "i' = unat (snd (handle_to_index h))"
  from assms obtain b where b: "e < FSYNC_LIST_ENTRIES" "i < FSYNC_LIST_BLOCK_SIZE"
      "fsync_list s e = Some b" "b i = r"
    by (auto simp: fsync_read_Inr_iff)
  have cas: "add_to_list_cas s e i t = Inr (type r, s)"
    using b assms(2) by (simp add: cache_defs)
  consider (far) "FSYNC_LIST_ENTRIES \<le> e'"
    | (none_alloc) "e' < FSYNC_LIST_ENTRIES" "fsync_list s e' = None" "e' = 0 \<or> anon_ok"
    | (none_fail) "e' < FSYNC_LIST_ENTRIES" "fsync_list s e' = None" "e' \<noteq> 0" "\<not> anon_ok"
    | (taken) b' where "e' < FSYNC_LIST_ENTRIES" "fsync_list s e' = Some b'" "type (b' i') \<noteq> 0"
    | (free) b' where "e' < FSYNC_LIST_ENTRIES" "fsync_list s e' = Some b'" "type (b' i') = 0"
    by (cases "fsync_list s e'"; cases "e' < FSYNC_LIST_ENTRIES") (force+)
  then show ?thesis
  proof cases
    case far
    with b show ?thesis
      using add_to_list_out_of_range [of h anon_ok s t p] assms(1)
      by (auto simp: e'_def)
  next
    case none_alloc
    with b show ?thesis
      using add_to_list_new_block [of h e' i' s anon_ok t p] assms(1)
      by (auto simp: e'_def i'_def fsync_read_Inr_iff)
  next
    case none_fail
    with b show ?thesis
      using add_to_list_no_block [of h e' s anon_ok t p] assms(1)
      by (auto simp: e'_def)
  next
    case taken
    with b show ?thesis
      using add_to_list_published [of h e' i' s b' anon_ok t p] assms(1) cas
      by (auto simp: e'_def i'_def)
  next
    case free
    with b assms(2) show ?thesis
      using add_to_list_free_slot [of h e' i' s b' anon_ok t p] assms(1)
      by (auto simp: e'_def i'_def fsync_read_Inr_iff)
  qed
qed

theorem published_record_is_final_witness:
  "fsync_read published_state 0 0 = Inr \<lparr>type = FSYNC_SEMAPHORE, shm = 0x7F0000001000\<rparr>
   \<and> FSYNC_SEMAPHORE \<noteq> 0
   \<and> add_to_list True published_state 4 FSYNC_SEMAPHORE 0x7F0000002000
       = Inr (Some (0, 0), published_state)"
  using published_record_is_final [of published_state 0 0
      "\<lparr>type = FSYNC_SEMAPHORE, shm = 0x7F0000001000\<rparr>" True 4 FSYNC_SEMAPHORE "0x7F0000002000"]
  by (auto simp: published_state_def initial_state_def fsync_read_def fsync_list_read_def
      FSYNC_LIST_ENTRIES_def FSYNC_LIST_BLOCK_SIZE_def sizeof_fsync_def FSYNC_SEMAPHORE_def
      handle_to_index_def)

text \<open>
  C1, as amended. After \<open>add_to_list(h, t, p)\<close> has returned a record, that record is
  the one of \<open>h\<close>; it holds \<open>{t, p}\<close> if its type was 0 before the call (or its block
  was not yet allocated) and is the record published earlier, unchanged, if not; and
  \<open>get_cached_object(h)\<close> returns the null pointer if the type is still 0 (which
  needs \<open>t = 0\<close>) and the record otherwise.
\<close>

theorem add_to_list_then_get_cached_object:
  assumes "add_to_list anon_ok s h t p = Inr (Some loc, s')"
  shows "loc = (unat (fst (handle_to_index h)), unat (snd (handle_to_index h)))
       \<and> (\<exists>r'. fsync_read s' (fst loc) (snd loc) = Inr r'
              \<and> r' = (case fsync_read s (fst loc) (snd loc) of
                         Inr r \<Rightarrow> if type r = 0 then \<lparr>type = t, shm = p\<rparr> else r
                       | Inl _ \<Rightarrow> \<lparr>type = t, shm = p\<rparr>)
              \<and> get_cached_object s' h = (if type r' = 0 then Inr None else Inr (Some loc)))"
proof -
  define e' where "e' = unat (fst (handle_to_index h))"
  define i' where "i' = unat (snd (handle_to_index h))"
  have i': "i' < FSYNC_LIST_BLOCK_SIZE"
    unfolding i'_def by (rule handle_to_index_idx_bound)
  consider (far) "FSYNC_LIST_ENTRIES \<le> e'"
    | (none_alloc) "e' < FSYNC_LIST_ENTRIES" "fsync_list s e' = None" "e' = 0 \<or> anon_ok"
    | (none_fail) "e' < FSYNC_LIST_ENTRIES" "fsync_list s e' = None" "e' \<noteq> 0" "\<not> anon_ok"
    | (taken) b' where "e' < FSYNC_LIST_ENTRIES" "fsync_list s e' = Some b'" "type (b' i') \<noteq> 0"
    | (free) b' where "e' < FSYNC_LIST_ENTRIES" "fsync_list s e' = Some b'" "type (b' i') = 0"
    by (cases "fsync_list s e'"; cases "e' < FSYNC_LIST_ENTRIES") (force+)
  then show ?thesis
  proof cases
    case far
    then show ?thesis
      using add_to_list_out_of_range [of h anon_ok s t p] assms
      by (simp add: e'_def)
  next
    case none_alloc
    then have "add_to_list anon_ok s h t p = Inr (Some (e', i'),
        s\<lparr>fsync_list := (fsync_list s)(e' := Some (zero_block(i' := \<lparr>type = t, shm = p\<rparr>)))\<rparr>)"
      using add_to_list_new_block [of h e' i' s anon_ok t p] by (simp add: e'_def i'_def)
    with assms have loc: "loc = (e', i')"
      and s': "s' = s\<lparr>fsync_list := (fsync_list s)(e' := Some (zero_block(i' := \<lparr>type = t, shm = p\<rparr>)))\<rparr>"
      by simp_all
    have "get_cached_object s' h = (if t = 0 then Inr None else Inr (Some (e', i')))"
      using get_cached_object_block [of h e' i' s' "zero_block(i' := \<lparr>type = t, shm = p\<rparr>)"] none_alloc
      by (simp add: s' e'_def i'_def)
    then show ?thesis
      using none_alloc i' by (simp add: loc s' e'_def [symmetric] i'_def [symmetric] cache_defs)
  next
    case none_fail
    then show ?thesis
      using add_to_list_no_block [of h e' s anon_ok t p] assms
      by (simp add: e'_def)
  next
    case taken
    then have "add_to_list anon_ok s h t p = Inr (Some (e', i'), s)"
      using add_to_list_published [of h e' i' s b' anon_ok t p] by (simp add: e'_def i'_def)
    with assms have loc: "loc = (e', i')" and s': "s' = s"
      by simp_all
    have "get_cached_object s' h = Inr (Some (e', i'))"
      using get_cached_object_block [of h e' i' s' b'] taken
      by (simp add: s' e'_def i'_def)
    then show ?thesis
      using taken i' by (simp add: loc s' e'_def [symmetric] i'_def [symmetric] cache_defs)
  next
    case free
    then have "add_to_list anon_ok s h t p = Inr (Some (e', i'),
        s\<lparr>fsync_list := (fsync_list s)(e' := Some (b'(i' := \<lparr>type = t, shm = p\<rparr>)))\<rparr>)"
      using add_to_list_free_slot [of h e' i' s b' anon_ok t p] by (simp add: e'_def i'_def)
    with assms have loc: "loc = (e', i')"
      and s': "s' = s\<lparr>fsync_list := (fsync_list s)(e' := Some (b'(i' := \<lparr>type = t, shm = p\<rparr>)))\<rparr>"
      by simp_all
    have "get_cached_object s' h = (if t = 0 then Inr None else Inr (Some (e', i')))"
      using get_cached_object_block [of h e' i' s' "b'(i' := \<lparr>type = t, shm = p\<rparr>)"] free
      by (simp add: s' e'_def i'_def)
    then show ?thesis
      using free i' by (simp add: loc s' e'_def [symmetric] i'_def [symmetric] cache_defs)
  qed
qed

theorem add_to_list_then_get_cached_object_witness:
  "add_to_list True initial_state 4 FSYNC_SEMAPHORE 0x7F0000001000
     = Inr (Some (0, 0), published_state)
   \<and> fsync_read published_state 0 0 = Inr \<lparr>type = FSYNC_SEMAPHORE, shm = 0x7F0000001000\<rparr>
   \<and> get_cached_object published_state 4 = Inr (Some (0, 0))"
proof -
  have run: "add_to_list True initial_state 4 FSYNC_SEMAPHORE 0x7F0000001000
      = Inr (Some (0, 0), published_state)"
    by (simp add: add_to_list_def cache_defs handle_to_index_def published_state_def
        initial_state_def zero_block_def FSYNC_LIST_ENTRIES_def FSYNC_LIST_BLOCK_SIZE_def
        sizeof_fsync_def FSYNC_SEMAPHORE_def)
  show ?thesis
    using add_to_list_then_get_cached_object [OF run] run
    by (simp add: fsync_read_def fsync_list_read_def initial_state_def
        FSYNC_LIST_ENTRIES_def FSYNC_SEMAPHORE_def)
qed

text \<open>
  C1 as stated fails. The source publishes the type first (line 188) and stores the
  pointer afterwards (line 189): in the state between the two, \<open>get_cached_object(4)\<close>
  returns the record, whose type is set and whose pointer is still null. And a
  second \<open>add_to_list\<close> for a handle already published succeeds and leaves the
  earlier record, not its own \<open>{t, p}\<close>.
\<close>

theorem reader_between_cas_and_store_counterexample:
  "add_to_list_alloc True initial_state 0 = Inr (Some writer_after_alloc)
   \<and> add_to_list_cas writer_after_alloc 0 0 FSYNC_SEMAPHORE = Inr (0, writer_after_cas)
   \<and> get_cached_object writer_after_cas 4 = Inr (Some (0, 0))
   \<and> fsync_read writer_after_cas 0 0 = Inr \<lparr>type = FSYNC_SEMAPHORE, shm = 0\<rparr>
   \<and> add_to_list_store writer_after_cas 0 0 0x7F0000001000 = Inr published_state
   \<and> add_to_list True initial_state 4 FSYNC_SEMAPHORE 0x7F0000001000
       = Inr (Some (0, 0), published_state)
   \<and> add_to_list True published_state 4 FSYNC_SEMAPHORE 0x7F0000002000
       = Inr (Some (0, 0), published_state)
   \<and> fsync_read published_state 0 0 = Inr \<lparr>type = FSYNC_SEMAPHORE, shm = 0x7F0000001000\<rparr>"
  by (simp add: add_to_list_def get_cached_object_def cache_defs handle_to_index_def
      writer_after_alloc_def writer_after_cas_def published_state_def
      initial_state_def zero_block_def FSYNC_LIST_ENTRIES_def FSYNC_LIST_BLOCK_SIZE_def
      sizeof_fsync_def FSYNC_SEMAPHORE_def)

text \<open>
  C10. For every handle whose shifted form is zero (\<open>handle >> 2 = 0\<close>, the null handle
  among them), the index \<open>(handle >> 2) - 1\<close> wraps to \<open>2^64 - 1\<close>, whose block number
  \<open>2^52 - 1\<close> is beyond \<open>FSYNC_LIST_ENTRIES\<close>; \<open>get_cached_object\<close> returns the null
  pointer, \<open>add_to_list\<close> returns \<open>FALSE\<close> and leaves the cache as it was, and neither
  ends in an invalid access.
\<close>

theorem null_handle_not_cached:
  assumes "drop_bit 2 handle = 0"
  shows "drop_bit 2 handle - 1 = (- 1 :: 64 word)
       \<and> unat (fst (handle_to_index handle)) = 2 ^ 52 - 1
       \<and> FSYNC_LIST_ENTRIES \<le> unat (fst (handle_to_index handle))
       \<and> get_cached_object s handle = Inr None
       \<and> (\<exists>s'. add_to_list anon_ok s handle t p = Inr (None, s')
               \<and> fsync_list s' = fsync_list s)"
  using assms
  by (simp add: handle_to_index_null get_cached_object_def add_to_list_def
      FSYNC_LIST_ENTRIES_def)

theorem null_handle_not_cached_witness:
  "drop_bit 2 (0 :: handle) = 0
   \<and> get_cached_object initial_state 0 = Inr None
   \<and> (\<exists>s'. add_to_list True initial_state 0 FSYNC_SEMAPHORE 4096 = Inr (None, s')
           \<and> fsync_list s' = fsync_list initial_state)"
  using null_handle_not_cached [of 0 initial_state True FSYNC_SEMAPHORE 4096]
  by simp


section \<open>Properties of the shared page pool\<close>

lemma sdiv_nonneg: "0 \<le> k \<Longrightarrow> 0 < l \<Longrightarrow> (k::int) sdiv l = k div l"
  by (cases "k = 0") (simp_all add: signed_divide_int_def)

lemma smod_nonneg: "0 \<le> k \<Longrightarrow> 0 < l \<Longrightarrow> (k::int) smod l = k mod l"
  by (cases "k = 0") (simp_all add: signed_modulo_int_def)

lemma long_to_int_id: "- (2 ^ 31) \<le> x \<Longrightarrow> x < 2 ^ 31 \<Longrightarrow> long_to_int x = x"
  unfolding long_to_int_def
  by (simp add: sint_sbintrunc' signed_take_bit_int_eq_self)

lemma get_shm_entry:
  assumes "1 < ps" 
  shows "long_to_int (uint (w :: 32 word) sdiv ps) = uint w div ps"
proof -
  have w: "0 \<le> uint w" "uint w < 2 ^ 32" by (simp_all add: uint_lt2p [of w, simplified])
  have "uint w div ps \<le> uint w div 2"
    using assms w by (intro zdiv_mono2) simp_all
  also have "\<dots> < 2 ^ 31" using w by simp
  finally have "uint w div ps < 2 ^ 31" .
  moreover have "0 \<le> uint w div ps" using assms w by (simp add: pos_imp_zdiv_nonneg_iff)
  ultimately show ?thesis using assms w by (simp add: sdiv_nonneg long_to_int_id)
qed

lemma get_shm_offset:
  assumes "0 < ps" "ps \<le> 2 ^ 31"
  shows "long_to_int (uint (w :: 32 word) smod ps) = uint w mod ps"
proof -
  have "uint w mod ps < ps" using assms by simp
  then have hi: "uint w mod ps < 2 ^ 31" using assms(2) by (rule order_less_le_trans)
  have "0 \<le> uint w mod ps" using assms by simp
  then have lo: "- (2 ^ 31) \<le> uint w mod ps" by simp
  have "uint w smod ps = uint w mod ps" using assms by (simp add: smod_nonneg)
  with long_to_int_id [OF lo hi] show ?thesis by simp
qed

lemmas shm_defs = get_shm_grow_def get_shm_map_def get_shm_cas_def get_shm_mmap_def
  get_shm_munmap_def shm_addrs_read_def shm_addrs_write_def



lemma realloc_length [simp]: "length (realloc junk xs n) = n"
  by (simp add: realloc_def)

lemma realloc_nth: "j < n \<Longrightarrow> j < length xs \<Longrightarrow> realloc junk xs n ! j = xs ! j"
  by (simp add: realloc_def)

lemma realloc_take: "length xs \<le> n \<Longrightarrow> take (length xs) (realloc junk xs n) = xs"
  by (rule nth_equalityI) (simp_all add: realloc_nth)










lemma get_shm_grow_none:
  "entry < shm_addrs_size s \<Longrightarrow> get_shm_grow env s entry = Inr s"
  by (simp add: get_shm_grow_def)

lemma get_shm_grow_ok:
  assumes "shm_addrs s = Some xs" and "shm_addrs_size s = int (length xs)"
    and "int (length xs) \<le> entry" and "realloc_ok env"
  shows "get_shm_grow env s entry =
           Inr (s\<lparr>shm_addrs := Some (xs @ replicate (nat (max (int (length xs) * 2) (entry + 1)) - length xs) 0),
                  shm_addrs_size := max (int (length xs) * 2) (entry + 1)\<rparr>)"
proof -
  define n where "n = max (int (length xs) * 2) (entry + 1)"
  have n: "int (length xs) < n" "0 \<le> n" "length xs \<le> nat n"
    using assms(3) by (simp_all add: n_def)
  have "memset (realloc (heap_junk env) xs (nat n)) (int (length xs)) 0 (n - int (length xs))
      = Inr (xs @ replicate (nat n - length xs) 0)"
    using n by (simp add: memset_def realloc_take nat_diff_distrib)
  then show ?thesis
    using assms by (simp add: get_shm_grow_def Let_def n_def)
qed

lemma get_shm_map_exact:
  assumes "shm_addrs s = Some ys" and "page < length ys"
  shows "get_shm_map env s (int page) =
           Inr (if ys ! page = 0
                then (get_shm_mmap s (int page) (mmap_ret env))\<lparr>shm_addrs := Some (ys[page := mmap_ret env])\<rparr>
                else s)"
  using assms by (simp add: shm_defs Let_def)

lemma unat_times_8:
  assumes "unat (idx :: 32 word) < 2 ^ 29"
  shows "unat (idx * 8) = unat idx * 8"
  using assms by (simp add: unat_word_ariths)

lemma get_shm_exact:
  fixes idx :: "32 word"
  assumes "shm_addrs s = Some xs" and "shm_addrs_size s = int (length xs)"
    and "1 < pagesize s" and "pagesize s \<le> 2 ^ 31" and "realloc_ok env"
    and page_def: "page = unat (idx * of_nat sizeof_semaphore) div nat (pagesize s)"
    and off_def: "off = unat (idx * of_nat sizeof_semaphore) mod nat (pagesize s)"
    and n_def: "n = (if length xs \<le> page then max (2 * length xs) (page + 1) else length xs)"
  shows "\<exists>p s' xs'. get_shm env s idx = Inr (p, s')
           \<and> shm_addrs s' = Some xs' \<and> shm_addrs_size s' = int n \<and> length xs' = n
           \<and> page < n
           \<and> xs' = (let ys = xs @ replicate (n - length xs) 0
                    in if ys ! page = 0 then ys[page := mmap_ret env] else ys)
           \<and> p = xs' ! page + of_nat off
           \<and> (unat idx < 2 ^ 29 \<longrightarrow> unat (idx * of_nat sizeof_semaphore) = unat idx * 8)"
proof -
  define w where "w = idx * 8"
  have ps: "pagesize s \<noteq> 0" "0 < pagesize s" using assms(3) by simp_all
  have uw: "uint w = int (unat w)" by simp
  have entry: "long_to_int (uint w sdiv pagesize s) = int page"
    using get_shm_entry [OF assms(3), of w] ps
    by (simp add: page_def w_def sizeof_semaphore_def zdiv_int)
  have offset: "long_to_int (uint w smod pagesize s) = int off"
    using get_shm_offset [OF ps(2) assms(4), of w] ps
    by (simp add: off_def w_def sizeof_semaphore_def zmod_int)
  define ys where "ys = xs @ replicate (n - length xs) 0"
  define s1 where "s1 = (if length xs \<le> page
      then s\<lparr>shm_addrs := Some ys, shm_addrs_size := int n\<rparr> else s)"
  have len: "length ys = n" "page < n"
    by (auto simp: ys_def n_def)
  have grow: "get_shm_grow env s (int page) = Inr s1"
  proof (cases "length xs \<le> page")
    case True
    have eq: "max (int (length xs) * 2) (int page + 1) = int n"
      using True by (auto simp: n_def max_def)
    then have "nat (max (int (length xs) * 2) (int page + 1)) = n"
      by simp
    with eq show ?thesis
      using get_shm_grow_ok [OF assms(1,2) _ assms(5), of "int page"] True
      by (simp add: s1_def ys_def)
  next
    case False
    then show ?thesis
      using assms(2) by (simp add: get_shm_grow_none s1_def)
  qed
  have s1: "shm_addrs s1 = Some ys" "shm_addrs_size s1 = int n"
    using assms(1,2) by (auto simp: s1_def ys_def n_def)
  define xs' where "xs' = (if ys ! page = 0 then ys[page := mmap_ret env] else ys)"
  define s2 where "s2 = (if ys ! page = 0
      then (get_shm_mmap s1 (int page) (mmap_ret env))\<lparr>shm_addrs := Some (ys[page := mmap_ret env])\<rparr>
      else s1)"
  have map: "get_shm_map env s1 (int page) = Inr s2"
    using get_shm_map_exact [OF s1(1), of page env] len by (simp add: s2_def)
  have s2: "shm_addrs s2 = Some xs'" "shm_addrs_size s2 = int n"
    using s1 by (auto simp: s2_def xs'_def get_shm_mmap_def)
  have len': "length xs' = n" using len by (simp add: xs'_def)
  have read: "shm_addrs_read s2 (int page) = Inr (xs' ! page)"
    using s2 len len' by (simp add: shm_addrs_read_def)
  have "get_shm env s idx = Inr (xs' ! page + of_nat off, s2)"
    using ps entry offset grow map read
    by (simp add: get_shm_def Let_def w_def [symmetric])
  moreover have "unat (idx * of_nat sizeof_semaphore) = unat idx * 8" if "unat idx < 2 ^ 29"
    using unat_times_8 [OF that] by (simp add: sizeof_semaphore_def)
  ultimately show ?thesis
    using s2 len len' by (auto simp: xs'_def ys_def Let_def)
qed

text \<open>
  C9. With an array that has the recorded size, a page size from 2 to \<open>2^31\<close> and a
  \<open>realloc\<close> that succeeds, \<open>get_shm(idx)\<close> returns \<open>shm_addrs[page] + offset\<close> for
  \<open>page = idx * 8 / pagesize\<close> and \<open>offset = idx * 8 % pagesize\<close>, where 8 is the size of
  \<open>struct semaphore\<close> and the product is the 32-bit one (the exact product for
  \<open>idx < 2^29\<close>). If the page is outside the array, the array grows to
  \<open>max (2 * size) (page + 1)\<close> entries, the old ones kept and the new ones zero; if
  not, its size stays. The page's entry is then set to the value of \<open>mmap\<close> if it was 0.
\<close>

theorem get_shm_page_offset_growth:
  fixes idx :: "32 word"
  assumes "shm_addrs s = Some xs" and "shm_addrs_size s = int (length xs)"
    and "1 < pagesize s" and "pagesize s \<le> 2 ^ 31" and "realloc_ok env"
  shows "let page = unat (idx * of_nat sizeof_semaphore) div nat (pagesize s);
             off = unat (idx * of_nat sizeof_semaphore) mod nat (pagesize s);
             n = (if length xs \<le> page then max (2 * length xs) (page + 1) else length xs)
         in \<exists>p s' xs'. get_shm env s idx = Inr (p, s')
              \<and> shm_addrs s' = Some xs' \<and> shm_addrs_size s' = int n \<and> length xs' = n
              \<and> page < n
              \<and> xs' = (let ys = xs @ replicate (n - length xs) 0
                       in if ys ! page = 0 then ys[page := mmap_ret env] else ys)
              \<and> p = xs' ! page + of_nat off
              \<and> (unat idx < 2 ^ 29 \<longrightarrow> unat (idx * of_nat sizeof_semaphore) = unat idx * 8)"
  unfolding Let_def
  using get_shm_exact [OF assms refl refl refl, of idx, unfolded Let_def] .










lemmas state_defs = ready_state_def initial_state_def shm_env_ok_def shm_env_no_memory_def
  shm_env_map_failed_def

theorem get_shm_page_offset_growth_witness:
  "shm_addrs ready_state = Some (replicate 128 0)
   \<and> shm_addrs_size ready_state = int (length (replicate 128 (0 :: pointer)))
   \<and> 1 < pagesize ready_state \<and> pagesize ready_state \<le> 2 ^ 31 \<and> realloc_ok shm_env_ok
   \<and> (\<exists>s'. get_shm shm_env_ok ready_state 65536 = Inr (0x7F0000001000, s')
           \<and> shm_addrs_size s' = 256
           \<and> shm_addrs s' = Some ((replicate 256 0)[128 := 0x7F0000001000]))"
proof -
  have rep: "replicate 128 (0 :: pointer) @ replicate 128 0 = replicate 256 0"
    by (simp add: replicate_add [symmetric])
  show ?thesis
    using get_shm_page_offset_growth [of ready_state "replicate 128 0" shm_env_ok 65536]
    by (auto simp: state_defs sizeof_semaphore_def Let_def rep)
qed

text \<open>
  C4. \<open>get_shm\<close> is claimed never to fail visibly. A failure to map a page is
  indeed only printed: the call publishes \<open>MAP_FAILED\<close> in the array and returns
  \<open>MAP_FAILED + offset\<close>. A failure to grow the array is printed too, but the call
  then runs \<open>memset\<close> through the null pointer \<open>realloc\<close> returned: with 128
  entries and 4096-byte pages, \<open>get_shm(65536)\<close> needs entry 128 and ends in an
  invalid access when \<open>realloc\<close> fails.
\<close>

theorem get_shm_realloc_failure:
  "get_shm shm_env_no_memory ready_state 65536
     = Inl (Invalid_access,
            ready_state\<lparr>shm_addrs := None, messages := [ERR_grow_shm_addrs 128]\<rparr>)
   \<and> get_shm shm_env_map_failed ready_state 40
     = Inr (0x13F,
            ready_state\<lparr>shm_addrs := Some ((replicate 128 0)[0 := MAP_FAILED]),
                         messages := [ERR_map_page 0]\<rparr>)"
  by (simp add: get_shm_def shm_defs Let_def state_defs long_to_int_def MAP_FAILED_def)

text \<open>One caller running its steps alone does what lines 135 to 147 do in sequence.\<close>

lemma get_shm_steps_sequential:
  "get_shm_race e off a1 a2 [True, True, True, True, True] (At_test, pc2, s) =
     (case get_shm_map \<lparr>realloc_ok = r, heap_junk = j, mmap_ret = a1\<rparr> s e of
        Inl (x, sx) \<Rightarrow> Inl x
      | Inr s2 \<Rightarrow>
          (case shm_addrs_read s2 e of
             Inl x \<Rightarrow> Inl x
           | Inr a \<Rightarrow> Inr (Returned (a + word_of_int off), pc2, s2)))"
  by (auto simp: get_shm_step_def shm_defs Let_def split: sum.splits option.splits)



section \<open>Properties of the feature gate, of object creation and of initialisation\<close>

lemma do_fsync_first:
  assumes "do_fsync_cached s = - 1"
  shows "\<exists>v. (v = 0 \<or> v = 1)
           \<and> do_fsync env s = (v, s\<lparr>do_fsync_cached := v, futex_probes := futex_probes s + 1\<rparr>)"
  using assms by (simp add: do_fsync_def Let_def split: option.splits)

lemma do_fsync_cached_hit:
  assumes "do_fsync_cached s \<noteq> - 1"
  shows "do_fsync env s = (do_fsync_cached s, s)"
  using assms by (simp add: do_fsync_def)

lemma do_fsync_calls_cached:
  assumes "do_fsync_cached s \<noteq> - 1"
  shows "do_fsync_calls envs s = (replicate (length envs) (do_fsync_cached s), s)"
  using assms by (induction envs) (simp_all add: do_fsync_cached_hit)

text \<open>
  C6. From a state in which the decision has not been taken, the first \<open>do_fsync\<close>
  makes one probe and returns 0 or 1; every later call, whatever the environment
  answers then, returns that value and leaves the state as it is, so the probe and the
  environment check run once.
\<close>

theorem do_fsync_decided_once:
  assumes "do_fsync_cached s = - 1"
  shows "\<exists>v s1. do_fsync env s = (v, s1) \<and> (v = 0 \<or> v = 1)
           \<and> futex_probes s1 = futex_probes s + 1
           \<and> do_fsync_calls envs s1 = (replicate (length envs) v, s1)
           \<and> do_fsync_calls (env # envs) s = (replicate (Suc (length envs)) v, s1)"
proof -
  from do_fsync_first [OF assms, of env] obtain v where v: "v = 0 \<or> v = 1"
    and first: "do_fsync env s = (v, s\<lparr>do_fsync_cached := v, futex_probes := futex_probes s + 1\<rparr>)"
    by blast
  define s1 where "s1 = s\<lparr>do_fsync_cached := v, futex_probes := futex_probes s + 1\<rparr>"
  have cached: "do_fsync_cached s1 = v" "do_fsync_cached s1 \<noteq> - 1"
    using v by (auto simp: s1_def)
  have later: "do_fsync_calls envs s1 = (replicate (length envs) v, s1)"
    using do_fsync_calls_cached [OF cached(2), of envs] cached(1) by simp
  have "do_fsync_calls (env # envs) s = (replicate (Suc (length envs)) v, s1)"
    using first later by (simp add: s1_def)
  with first later v show ?thesis
    by (auto simp: s1_def)
qed

theorem do_fsync_decided_once_witness:
  "do_fsync_cached initial_state = - 1
   \<and> do_fsync gate_enabled initial_state
       = (1, initial_state\<lparr>do_fsync_cached := 1, futex_probes := 1\<rparr>)
   \<and> do_fsync_calls [gate_enabled, gate_unset, gate_no_futex] initial_state
       = ([1, 1, 1], initial_state\<lparr>do_fsync_cached := 1, futex_probes := 1\<rparr>)"
  using do_fsync_decided_once [of initial_state gate_enabled "[gate_unset, gate_no_futex]"]
  by (simp add: do_fsync_def initial_state_def gate_enabled_def gate_unset_def
      gate_no_futex_def ENOSYS_def)

lemma add_to_list_total:
  "\<exists>c s'. add_to_list ok s h t p = Inr (c, s')"
proof -
  define e where "e = unat (fst (handle_to_index h))"
  define i where "i = unat (snd (handle_to_index h))"
  consider (far) "FSYNC_LIST_ENTRIES \<le> e"
    | (none_alloc) "e < FSYNC_LIST_ENTRIES" "fsync_list s e = None" "e = 0 \<or> ok"
    | (none_fail) "e < FSYNC_LIST_ENTRIES" "fsync_list s e = None" "e \<noteq> 0" "\<not> ok"
    | (taken) b where "e < FSYNC_LIST_ENTRIES" "fsync_list s e = Some b" "type (b i) \<noteq> 0"
    | (free) b where "e < FSYNC_LIST_ENTRIES" "fsync_list s e = Some b" "type (b i) = 0"
    by (cases "fsync_list s e"; cases "e < FSYNC_LIST_ENTRIES") (force+)
  then show ?thesis
  proof cases
    case far
    then show ?thesis using add_to_list_out_of_range [of h ok s t p] by (simp add: e_def)
  next
    case none_alloc
    then show ?thesis using add_to_list_new_block [of h e i s ok t p] by (simp add: e_def i_def)
  next
    case none_fail
    then show ?thesis using add_to_list_no_block [of h e s ok t p] by (simp add: e_def)
  next
    case taken
    then show ?thesis using add_to_list_published [of h e i s b ok t p] by (simp add: e_def i_def)
  next
    case free
    then show ?thesis using add_to_list_free_slot [of h e i s b ok t p] by (simp add: e_def i_def)
  qed
qed

lemma get_shm_grow_fsync_list:
  assumes "get_shm_grow env s e = Inr s1"
  shows "fsync_list s1 = fsync_list s"
  using assms by (auto simp: get_shm_grow_def Let_def split: if_splits sum.splits)

lemma get_shm_map_fsync_list:
  assumes "get_shm_map env s e = Inr s2"
  shows "fsync_list s2 = fsync_list s"
  using assms by (auto simp: shm_defs Let_def split: if_splits sum.splits option.splits)

lemma get_shm_fsync_list:
  assumes "get_shm env s idx = Inr (p, s')"
  shows "fsync_list s' = fsync_list s"
proof -
  define e where "e = long_to_int (uint (idx * 8) sdiv pagesize s)"
  from assms have ps: "pagesize s \<noteq> 0"
    by (auto simp: get_shm_def split: if_splits)
  from assms ps obtain s1 where g: "get_shm_grow env s e = Inr s1"
    and m: "get_shm_map env s1 e = Inr s'"
    by (auto simp: get_shm_def Let_def e_def split: sum.splits)
  from get_shm_grow_fsync_list [OF g] get_shm_map_fsync_list [OF m]
  show ?thesis by simp
qed

text \<open>
  C3. \<open>create_fsync\<close> returns a failure of \<open>alloc_object_attributes\<close> or of the server
  as it is, without writing the handle; when it returns a status other than success and
  "name exists", the handle cache and the page pool are as before. When the server
  answers success or "name exists", it calls \<open>get_shm\<close> with the reply's index and
  \<open>add_to_list\<close> with the reply's handle and the pointer obtained, and returns the
  server's status and the reply's handle; \<open>add_to_list\<close> always returns, so the call
  ends otherwise only where \<open>get_shm\<close> does.
\<close>

theorem create_fsync_inserts_on_success_only:
  fixes env :: create_env and attr :: "string option" and access :: "32 word"
    and low :: int and high :: int
  defines "st \<equiv> fst (alloc_object_attributes env attr)"
  defines "req \<equiv> \<lparr>req_access = access, req_low = low, req_high = high,
                    req_objattr = snd (alloc_object_attributes env attr)\<rparr>"
  shows "(st \<noteq> 0 \<longrightarrow> create_fsync env s t access attr low high = Inr (st, None, s))
       \<and> (st = 0 \<and> status (wine_server_call env req) \<noteq> 0
              \<and> status (wine_server_call env req) \<noteq> STATUS_OBJECT_NAME_EXISTS
            \<longrightarrow> create_fsync env s t access attr low high
                  = Inr (status (wine_server_call env req), None,
                         s\<lparr>server_requests := server_requests s @ [req]\<rparr>))
       \<and> (st = 0 \<and> (status (wine_server_call env req) = 0
                     \<or> status (wine_server_call env req) = STATUS_OBJECT_NAME_EXISTS)
            \<longrightarrow> (\<forall>x. get_shm (shm_answers env) (s\<lparr>server_requests := server_requests s @ [req]\<rparr>)
                         (reply_shm_idx (wine_server_call env req)) = Inl x
                       \<longrightarrow> create_fsync env s t access attr low high = Inl x)
                \<and> (\<forall>p s2. get_shm (shm_answers env) (s\<lparr>server_requests := server_requests s @ [req]\<rparr>)
                         (reply_shm_idx (wine_server_call env req)) = Inr (p, s2)
                       \<longrightarrow> (\<exists>c s3. add_to_list (anon_mmap_ok env) s2
                                       (reply_handle (wine_server_call env req)) t p = Inr (c, s3)
                                  \<and> create_fsync env s t access attr low high
                                      = Inr (status (wine_server_call env req),
                                             Some (reply_handle (wine_server_call env req)), s3))))
       \<and> (\<forall>ret h s'. create_fsync env s t access attr low high = Inr (ret, h, s')
              \<and> ret \<noteq> 0 \<and> ret \<noteq> STATUS_OBJECT_NAME_EXISTS
            \<longrightarrow> h = None \<and> fsync_list s' = fsync_list s \<and> shm_addrs s' = shm_addrs s
                \<and> shm_addrs_size s' = shm_addrs_size s \<and> mapped s' = mapped s)"
proof (intro conjI impI allI)
  assume "st \<noteq> 0"
  then show "create_fsync env s t access attr low high = Inr (st, None, s)"
    by (simp add: create_fsync_def st_def split_beta)
next
  assume "st = 0 \<and> status (wine_server_call env req) \<noteq> 0
      \<and> status (wine_server_call env req) \<noteq> STATUS_OBJECT_NAME_EXISTS"
  then show "create_fsync env s t access attr low high
      = Inr (status (wine_server_call env req), None,
             s\<lparr>server_requests := server_requests s @ [req]\<rparr>)"
    by (simp add: create_fsync_def st_def req_def split_beta Let_def)
next
  fix x
  assume "st = 0 \<and> (status (wine_server_call env req) = 0
      \<or> status (wine_server_call env req) = STATUS_OBJECT_NAME_EXISTS)"
    and "get_shm (shm_answers env) (s\<lparr>server_requests := server_requests s @ [req]\<rparr>)
      (reply_shm_idx (wine_server_call env req)) = Inl x"
  then show "create_fsync env s t access attr low high = Inl x"
    by (auto simp: create_fsync_def st_def req_def split_beta Let_def)
next
  fix p s2
  assume ok: "st = 0 \<and> (status (wine_server_call env req) = 0
      \<or> status (wine_server_call env req) = STATUS_OBJECT_NAME_EXISTS)"
    and shm: "get_shm (shm_answers env) (s\<lparr>server_requests := server_requests s @ [req]\<rparr>)
      (reply_shm_idx (wine_server_call env req)) = Inr (p, s2)"
  from add_to_list_total [of "anon_mmap_ok env" s2 "reply_handle (wine_server_call env req)" t p]
  obtain c s3 where add: "add_to_list (anon_mmap_ok env) s2
      (reply_handle (wine_server_call env req)) t p = Inr (c, s3)"
    by blast
  have "create_fsync env s t access attr low high
      = Inr (status (wine_server_call env req),
             Some (reply_handle (wine_server_call env req)), s3)"
    using ok shm add by (auto simp: create_fsync_def st_def req_def split_beta Let_def)
  with add show "\<exists>c s3. add_to_list (anon_mmap_ok env) s2
      (reply_handle (wine_server_call env req)) t p = Inr (c, s3)
      \<and> create_fsync env s t access attr low high
          = Inr (status (wine_server_call env req),
                 Some (reply_handle (wine_server_call env req)), s3)"
    by blast
next
  fix ret h s'
  assume a: "create_fsync env s t access attr low high = Inr (ret, h, s')
      \<and> ret \<noteq> 0 \<and> ret \<noteq> STATUS_OBJECT_NAME_EXISTS"
  then have "h = None \<and> (s' = s \<or> s' = s\<lparr>server_requests := server_requests s @ [req]\<rparr>)"
    by (auto simp: create_fsync_def req_def split_beta Let_def split: if_splits sum.splits)
  then show "h = None" "fsync_list s' = fsync_list s" "shm_addrs s' = shm_addrs s"
    "shm_addrs_size s' = shm_addrs_size s" "mapped s' = mapped s"
    by auto
qed

text \<open>
  C8. For a handle whose block number is \<open>FSYNC_LIST_ENTRIES\<close> or more,
  \<open>add_to_list\<close> prints its diagnostic, returns \<open>FALSE\<close> and leaves the state otherwise
  unchanged; and a \<open>create_fsync\<close> whose reply carries such a handle with success or
  "name exists" returns that status and the handle once \<open>get_shm\<close> has returned, the
  handle cache being as before the call.
\<close>

theorem add_to_list_out_of_range_soft:
  fixes env :: create_env and attr :: "string option" and access :: "32 word"
    and low :: int and high :: int
  assumes "FSYNC_LIST_ENTRIES \<le> unat (fst (handle_to_index h))"
  defines "st \<equiv> fst (alloc_object_attributes env attr)"
  defines "req \<equiv> \<lparr>req_access = access, req_low = low, req_high = high,
                    req_objattr = snd (alloc_object_attributes env attr)\<rparr>"
  shows "add_to_list ok s h t p
           = Inr (None, s\<lparr>messages := messages s @ [FIXME_too_many_handles h]\<rparr>)
       \<and> (st = 0 \<and> reply_handle (wine_server_call env req) = h
            \<and> (status (wine_server_call env req) = 0
                \<or> status (wine_server_call env req) = STATUS_OBJECT_NAME_EXISTS)
            \<longrightarrow> (\<forall>q s2. get_shm (shm_answers env) (s\<lparr>server_requests := server_requests s @ [req]\<rparr>)
                          (reply_shm_idx (wine_server_call env req)) = Inr (q, s2)
                       \<longrightarrow> create_fsync env s t access attr low high
                             = Inr (status (wine_server_call env req), Some h,
                                    s2\<lparr>messages := messages s2 @ [FIXME_too_many_handles h]\<rparr>)
                           \<and> fsync_list s2 = fsync_list s))"
proof (intro conjI impI allI)
  show "add_to_list ok s h t p
      = Inr (None, s\<lparr>messages := messages s @ [FIXME_too_many_handles h]\<rparr>)"
    using assms(1) by (rule add_to_list_out_of_range)
next
  fix q s2
  assume ok: "st = 0 \<and> reply_handle (wine_server_call env req) = h
      \<and> (status (wine_server_call env req) = 0
          \<or> status (wine_server_call env req) = STATUS_OBJECT_NAME_EXISTS)"
    and shm: "get_shm (shm_answers env) (s\<lparr>server_requests := server_requests s @ [req]\<rparr>)
      (reply_shm_idx (wine_server_call env req)) = Inr (q, s2)"
  have add: "add_to_list (anon_mmap_ok env) s2 h t q
      = Inr (None, s2\<lparr>messages := messages s2 @ [FIXME_too_many_handles h]\<rparr>)"
    using assms(1) by (rule add_to_list_out_of_range)
  show "create_fsync env s t access attr low high
      = Inr (status (wine_server_call env req), Some h,
             s2\<lparr>messages := messages s2 @ [FIXME_too_many_handles h]\<rparr>)"
    using ok shm add by (auto simp: create_fsync_def st_def req_def split_beta Let_def)
  show "fsync_list s2 = fsync_list s"
    using get_shm_fsync_list [OF shm] by simp
qed

theorem add_to_list_out_of_range_soft_witness:
  "FSYNC_LIST_ENTRIES \<le> unat (fst (handle_to_index 0x400004))
   \<and> add_to_list True ready_state 0x400004 FSYNC_SEMAPHORE 0x7F0000001140
       = Inr (None, ready_state\<lparr>messages := [FIXME_too_many_handles 0x400004]\<rparr>)
   \<and> create_fsync (server_creates 0x400004 40) ready_state FSYNC_SEMAPHORE 0 None 0 5
       = Inr (0, Some 0x400004,
              page0_mapped_state\<lparr>messages := [FIXME_too_many_handles 0x400004],
                server_requests := [\<lparr>req_access = 0, req_low = 0, req_high = 5, req_objattr = []\<rparr>]\<rparr>)"
proof -
  have far: "FSYNC_LIST_ENTRIES \<le> unat (fst (handle_to_index 0x400004))"
    by (simp add: handle_to_index_def FSYNC_LIST_ENTRIES_def FSYNC_LIST_BLOCK_SIZE_def
        sizeof_fsync_def)
  have shm: "get_shm shm_env_ok (ready_state\<lparr>server_requests :=
        [\<lparr>req_access = 0, req_low = 0, req_high = 5, req_objattr = []\<rparr>]\<rparr>) 40
      = Inr (0x7F0000001140, page0_mapped_state\<lparr>server_requests :=
          [\<lparr>req_access = 0, req_low = 0, req_high = 5, req_objattr = []\<rparr>]\<rparr>)"
    by (simp add: get_shm_def shm_defs Let_def state_defs long_to_int_def
        MAP_FAILED_def page0_mapped_state_def)
  show ?thesis
    using add_to_list_out_of_range_soft [OF far, where env = "server_creates 0x400004 40"
        and attr = None and access = 0 and low = 0 and high = 5 and ok = True
        and s = ready_state and t = FSYNC_SEMAPHORE and p = "0x7F0000001140"] far shm
    by (simp add: server_creates_def state_defs page0_mapped_state_def)
qed

theorem create_fsync_inserts_on_success_only_witness:
  "fst (alloc_object_attributes (server_creates 8 40) None) = 0
   \<and> status (wine_server_call (server_creates 8 40) semaphore_request) = 0
   \<and> create_fsync (server_creates 8 40) ready_state FSYNC_SEMAPHORE 0 None 0 5
       = Inr (0, Some 8, created_state)
   \<and> get_cached_object created_state 8 = Inr (Some (0, 1))
   \<and> status (wine_server_call server_access_denied semaphore_request) = 0xC0000022
   \<and> create_fsync server_access_denied ready_state FSYNC_SEMAPHORE 0 None 0 5
       = Inr (0xC0000022, None, ready_state\<lparr>server_requests := [semaphore_request]\<rparr>)"
proof -
  have shm: "get_shm shm_env_ok (ready_state\<lparr>server_requests := [semaphore_request]\<rparr>) 40
      = Inr (0x7F0000001140, page0_mapped_state\<lparr>server_requests := [semaphore_request]\<rparr>)"
    by (simp add: get_shm_def shm_defs Let_def state_defs long_to_int_def
        MAP_FAILED_def page0_mapped_state_def)
  have add: "add_to_list True (page0_mapped_state\<lparr>server_requests := [semaphore_request]\<rparr>)
      8 FSYNC_SEMAPHORE 0x7F0000001140 = Inr (Some (0, 1), created_state)"
    by (simp add: add_to_list_def cache_defs handle_to_index_def created_state_def
        page0_mapped_state_def state_defs zero_block_def FSYNC_LIST_ENTRIES_def
        FSYNC_LIST_BLOCK_SIZE_def sizeof_fsync_def)
  have get: "get_cached_object created_state 8 = Inr (Some (0, 1))"
    by (simp add: get_cached_object_def cache_defs handle_to_index_def created_state_def
        page0_mapped_state_def state_defs zero_block_def FSYNC_LIST_ENTRIES_def
        FSYNC_LIST_BLOCK_SIZE_def sizeof_fsync_def FSYNC_SEMAPHORE_def)
  show ?thesis
    using create_fsync_inserts_on_success_only [where env = "server_creates 8 40"
        and attr = None and access = 0 and low = 0 and high = 5 and s = ready_state
        and t = FSYNC_SEMAPHORE]
      create_fsync_inserts_on_success_only [where env = server_access_denied
        and attr = None and access = 0 and low = 0 and high = 5 and s = ready_state
        and t = FSYNC_SEMAPHORE]
      shm add get
    by (simp add: server_creates_def server_access_denied_def semaphore_request_def
        STATUS_OBJECT_NAME_EXISTS_def state_defs)
qed

lemma fsync_init_enabled:
  assumes "fst (do_fsync (gate_answers env) s) \<noteq> 0"
  shows "\<exists>s'. (if shm_open_ret env = - 1 then fsync_init env s = Inl (Exit 1, s')
               else fsync_init env s = Inr s')
           \<and> server_requests s' = server_requests s"
proof -
  have req: "server_requests (snd (do_fsync (gate_answers env) s)) = server_requests s"
    by (simp add: do_fsync_def Let_def)
  show ?thesis
  proof (cases "shm_open_ret env = - 1")
    case True
    with assms req show ?thesis
      by (simp add: fsync_init_def Let_def split_beta)
  next
    case False
    with assms req show ?thesis
      by (simp add: fsync_init_def Let_def split_beta)
  qed
qed

lemma add_to_list_server_requests:
  "\<exists>c s'. add_to_list ok s h t p = Inr (c, s') \<and> server_requests s' = server_requests s"
proof -
  define e where "e = unat (fst (handle_to_index h))"
  define i where "i = unat (snd (handle_to_index h))"
  consider (far) "FSYNC_LIST_ENTRIES \<le> e"
    | (none_alloc) "e < FSYNC_LIST_ENTRIES" "fsync_list s e = None" "e = 0 \<or> ok"
    | (none_fail) "e < FSYNC_LIST_ENTRIES" "fsync_list s e = None" "e \<noteq> 0" "\<not> ok"
    | (taken) b where "e < FSYNC_LIST_ENTRIES" "fsync_list s e = Some b" "type (b i) \<noteq> 0"
    | (free) b where "e < FSYNC_LIST_ENTRIES" "fsync_list s e = Some b" "type (b i) = 0"
    by (cases "fsync_list s e"; cases "e < FSYNC_LIST_ENTRIES") (force+)
  then show ?thesis
  proof cases
    case far
    then show ?thesis using add_to_list_out_of_range [of h ok s t p] by (simp add: e_def)
  next
    case none_alloc
    then show ?thesis using add_to_list_new_block [of h e i s ok t p] by (simp add: e_def i_def)
  next
    case none_fail
    then show ?thesis using add_to_list_no_block [of h e s ok t p] by (simp add: e_def)
  next
    case taken
    then show ?thesis using add_to_list_published [of h e i s b ok t p] by (simp add: e_def i_def)
  next
    case free
    then show ?thesis using add_to_list_free_slot [of h e i s b ok t p] by (simp add: e_def i_def)
  qed
qed

lemma get_shm_grow_server_requests:
  "(case get_shm_grow env s e of
      Inl (a, s') \<Rightarrow> server_requests s' = server_requests s
    | Inr s' \<Rightarrow> server_requests s' = server_requests s)"
  by (simp add: get_shm_grow_def Let_def split: sum.splits)

lemma get_shm_map_server_requests:
  "(case get_shm_map env s e of
      Inl (a, s') \<Rightarrow> server_requests s' = server_requests s
    | Inr s' \<Rightarrow> server_requests s' = server_requests s)"
  by (auto simp: shm_defs Let_def split: sum.splits option.splits)

lemma get_shm_server_requests:
  "(case get_shm env s idx of
      Inl (a, s') \<Rightarrow> server_requests s' = server_requests s
    | Inr (p, s') \<Rightarrow> server_requests s' = server_requests s)"
proof (cases "pagesize s = 0")
  case True
  then show ?thesis by (simp add: get_shm_def)
next
  case False
  define e where "e = long_to_int (uint (idx * 8) sdiv pagesize s)"
  show ?thesis
  proof (cases "get_shm_grow env s e")
    case (Inl x)
    with False get_shm_grow_server_requests [where env = env and s = s and e = e] show ?thesis
      by (simp add: get_shm_def Let_def e_def split: prod.splits)
  next
    case grow: (Inr s1)
    with get_shm_grow_server_requests [where env = env and s = s and e = e]
    have r1: "server_requests s1 = server_requests s" by simp
    show ?thesis
    proof (cases "get_shm_map env s1 e")
      case (Inl x)
      with False grow r1 get_shm_map_server_requests [where env = env and s = s1 and e = e] show ?thesis
        by (simp add: get_shm_def Let_def e_def split: prod.splits)
    next
      case map: (Inr s2)
      with get_shm_map_server_requests [where env = env and s = s1 and e = e]
      have r2: "server_requests s2 = server_requests s1" by simp
      from False grow map r1 r2 show ?thesis
        by (simp add: get_shm_def Let_def e_def split: sum.splits)
    qed
  qed
qed

lemma create_fsync_server_requests:
  assumes "fst (alloc_object_attributes env attr) = 0"
  shows "(case create_fsync env s t access attr low high of
            Inl (a, s') \<Rightarrow> server_requests s'
          | Inr (r, h, s') \<Rightarrow> server_requests s')
         = server_requests s @ [\<lparr>req_access = access, req_low = low, req_high = high,
                                  req_objattr = snd (alloc_object_attributes env attr)\<rparr>]"
proof -
  define req where "req = \<lparr>req_access = access, req_low = low, req_high = high,
      req_objattr = snd (alloc_object_attributes env attr)\<rparr>"
  define s1 where "s1 = s\<lparr>server_requests := server_requests s @ [req]\<rparr>"
  define reply where "reply = wine_server_call env req"
  show ?thesis
  proof (cases "status reply = 0 \<or> status reply = STATUS_OBJECT_NAME_EXISTS")
    case False
    with assms show ?thesis
      by (simp add: create_fsync_def split_beta Let_def req_def reply_def)
  next
    case True
    show ?thesis
    proof (cases "get_shm (shm_answers env) s1 (reply_shm_idx reply)")
      case (Inl x)
      with get_shm_server_requests [where env = "shm_answers env" and s = s1 and idx = "reply_shm_idx reply"] True assms
      show ?thesis
        by (auto simp: create_fsync_def split_beta Let_def req_def [symmetric]
            reply_def [symmetric] s1_def [symmetric]) (simp_all add: s1_def)
    next
      case (Inr y)
      obtain p s2 where y: "y = (p, s2)" by (cases y)
      from add_to_list_server_requests [of "anon_mmap_ok env" s2 "reply_handle reply" t p]
      obtain c s3 where add: "add_to_list (anon_mmap_ok env) s2 (reply_handle reply) t p = Inr (c, s3)"
        and r3: "server_requests s3 = server_requests s2" by blast
      from get_shm_server_requests [where env = "shm_answers env" and s = s1 and idx = "reply_shm_idx reply"] Inr y
      have r2: "server_requests s2 = server_requests s1" by simp
      from True assms Inr y add r3 r2 show ?thesis
        by (auto simp: create_fsync_def split_beta Let_def req_def [symmetric]
            reply_def [symmetric] s1_def [symmetric]) (simp_all add: s1_def)
    qed
  qed
qed

text \<open>
  C2, as amended. The probe belongs to the disabled side. When \<open>do_fsync\<close> returns 0
  (and the attributes of the request can be allocated), \<open>fsync_init\<close> sends one
  creation request, of type 0 and without attributes; if the server answers it with
  "not implemented" \<open>fsync_init\<close> returns normally, and if the server answers it with a
  status other than "not implemented", success and "name exists", \<open>fsync_init\<close> prints
  that the server is running with WINEFSYNC and exits with code 1. When \<open>do_fsync\<close>
  returns nonzero no request is sent, and the process exits exactly when \<open>shm_open\<close>
  fails.
\<close>

theorem fsync_init_server_check:
  fixes env :: init_env and s :: fsync_state
  defines "enabled \<equiv> fst (do_fsync (gate_answers env) s)"
  defines "s1 \<equiv> snd (do_fsync (gate_answers env) s)"
  defines "st \<equiv> fst (alloc_object_attributes (create_answers env) None)"
  defines "req \<equiv> \<lparr>req_access = 0, req_low = 0, req_high = 0,
                    req_objattr = snd (alloc_object_attributes (create_answers env) None)\<rparr>"
  defines "ret \<equiv> status (wine_server_call (create_answers env) req)"
  shows "(enabled = 0 \<and> st = 0
            \<longrightarrow> (case fsync_init env s of
                   Inl (a, s') \<Rightarrow> server_requests s'
                 | Inr s' \<Rightarrow> server_requests s') = server_requests s @ [req])
       \<and> (enabled = 0 \<and> st = 0 \<and> ret = STATUS_NOT_IMPLEMENTED
            \<longrightarrow> fsync_init env s = Inr (s1\<lparr>server_requests := server_requests s1 @ [req]\<rparr>))
       \<and> (enabled = 0 \<and> st = 0 \<and> ret \<noteq> STATUS_NOT_IMPLEMENTED \<and> ret \<noteq> 0
              \<and> ret \<noteq> STATUS_OBJECT_NAME_EXISTS
            \<longrightarrow> fsync_init env s
                  = Inl (Exit 1, s1\<lparr>server_requests := server_requests s1 @ [req],
                                     messages := messages s1 @ [ERR_server_with_fsync]\<rparr>))
       \<and> (enabled \<noteq> 0
            \<longrightarrow> (\<exists>s'. (if shm_open_ret env = - 1 then fsync_init env s = Inl (Exit 1, s')
                         else fsync_init env s = Inr s')
                     \<and> server_requests s' = server_requests s))"
proof (intro conjI impI)
  assume a: "enabled = 0 \<and> st = 0"
  have r1: "server_requests s1 = server_requests s"
    by (simp add: s1_def do_fsync_def Let_def)
  from a have st0: "fst (alloc_object_attributes (create_answers env) None) = 0"
    by (simp add: st_def)
  from create_fsync_server_requests [OF st0, of s1 0 0 0 0]
  have sent: "(case create_fsync (create_answers env) s1 0 0 None 0 0 of
        Inl (a, s') \<Rightarrow> server_requests s'
      | Inr (r, h, s') \<Rightarrow> server_requests s') = server_requests s1 @ [req]"
    by (simp add: req_def)
  show "(case fsync_init env s of
        Inl (a, s') \<Rightarrow> server_requests s'
      | Inr s' \<Rightarrow> server_requests s') = server_requests s @ [req]"
  proof (cases "create_fsync (create_answers env) s1 0 0 None 0 0")
    case (Inl x)
    with a sent r1 show ?thesis
      by (simp add: fsync_init_def enabled_def s1_def split_beta)
  next
    case (Inr y)
    obtain r h s2 where y: "y = (r, h, s2)" by (cases y)
    with a sent r1 Inr show ?thesis
      by (simp add: fsync_init_def enabled_def s1_def split_beta)
  qed
next
  assume a: "enabled = 0 \<and> st = 0 \<and> ret = STATUS_NOT_IMPLEMENTED"
  then have "create_fsync (create_answers env) s1 0 0 None 0 0
      = Inr (ret, None, s1\<lparr>server_requests := server_requests s1 @ [req]\<rparr>)"
    by (simp add: create_fsync_def st_def req_def ret_def split_beta Let_def
        STATUS_NOT_IMPLEMENTED_def STATUS_OBJECT_NAME_EXISTS_def)
  with a show "fsync_init env s = Inr (s1\<lparr>server_requests := server_requests s1 @ [req]\<rparr>)"
    by (simp add: fsync_init_def enabled_def s1_def split_beta)
next
  assume a: "enabled = 0 \<and> st = 0 \<and> ret \<noteq> STATUS_NOT_IMPLEMENTED \<and> ret \<noteq> 0
      \<and> ret \<noteq> STATUS_OBJECT_NAME_EXISTS"
  then have "create_fsync (create_answers env) s1 0 0 None 0 0
      = Inr (ret, None, s1\<lparr>server_requests := server_requests s1 @ [req]\<rparr>)"
    by (simp add: create_fsync_def st_def req_def ret_def split_beta Let_def)
  with a show "fsync_init env s
      = Inl (Exit 1, s1\<lparr>server_requests := server_requests s1 @ [req],
                         messages := messages s1 @ [ERR_server_with_fsync]\<rparr>)"
    by (simp add: fsync_init_def enabled_def s1_def split_beta)
next
  assume "enabled \<noteq> 0"
  then show "\<exists>s'. (if shm_open_ret env = - 1 then fsync_init env s = Inl (Exit 1, s')
                   else fsync_init env s = Inr s')
               \<and> server_requests s' = server_requests s"
    unfolding enabled_def by (rule fsync_init_enabled)
qed

theorem fsync_init_server_check_witness:
  "fst (do_fsync gate_unset initial_state) = 0
   \<and> fst (alloc_object_attributes server_not_implemented None) = 0
   \<and> status (wine_server_call server_not_implemented probe_request) = STATUS_NOT_IMPLEMENTED
   \<and> fsync_init (init_disabled server_not_implemented) initial_state
       = Inr (initial_state\<lparr>do_fsync_cached := 0, futex_probes := 1,
                             server_requests := [probe_request]\<rparr>)
   \<and> status (wine_server_call server_access_denied probe_request) = 0xC0000022
   \<and> fsync_init (init_disabled server_access_denied) initial_state
       = Inl (Exit 1, initial_state\<lparr>do_fsync_cached := 0, futex_probes := 1,
                                     server_requests := [probe_request],
                                     messages := [ERR_server_with_fsync]\<rparr>)
   \<and> fst (do_fsync gate_enabled initial_state) = 1
   \<and> fsync_init (init_enabled server_access_denied) initial_state = Inr ready_state"
  using fsync_init_server_check [of "init_disabled server_not_implemented" initial_state]
    fsync_init_server_check [of "init_disabled server_access_denied" initial_state]
    fsync_init_server_check [of "init_enabled server_access_denied" initial_state]
  by (simp add: do_fsync_def init_disabled_def init_enabled_def gate_unset_def gate_enabled_def
      server_not_implemented_def server_access_denied_def probe_request_def state_defs
      STATUS_NOT_IMPLEMENTED_def STATUS_OBJECT_NAME_EXISTS_def fsync_init_def Let_def
      create_fsync_def ENOSYS_def)

text \<open>
  C2 as stated fails: with the subsystem enabled locally and a server that answers every
  creation request with "not implemented", \<open>fsync_init\<close> sends no request, prints
  nothing and returns normally (the shared file can be opened).
\<close>

theorem fsync_init_enabled_without_server_support_counterexample:
  "fst (do_fsync gate_enabled initial_state) = 1
   \<and> status (wine_server_call server_not_implemented probe_request) = STATUS_NOT_IMPLEMENTED
   \<and> fsync_init (init_enabled server_not_implemented) initial_state = Inr ready_state
   \<and> server_requests ready_state = []
   \<and> messages ready_state = []"
  by (simp add: fsync_init_def do_fsync_def init_enabled_def gate_enabled_def Let_def
      server_not_implemented_def state_defs ENOSYS_def)

text \<open>
  In the probe of a disabled process \<open>pagesize\<close> is still 0: if the server answers the
  request with success, \<open>create_fsync\<close> enters \<open>get_shm\<close>, which divides by it.
\<close>

lemma fsync_init_probe_success:
  "fsync_init (init_disabled (server_creates 8 0)) initial_state
     = Inl (Division_by_zero,
            initial_state\<lparr>do_fsync_cached := 0, futex_probes := 1,
                           server_requests := [probe_request]\<rparr>)"
  by (simp add: fsync_init_def do_fsync_def create_fsync_def get_shm_def init_disabled_def
      gate_unset_def server_creates_def probe_request_def state_defs Let_def)

end
